theory Spec2Isabelle
  imports Complex_Main
begin

section \<open>Exceptions and outcomes of library calls\<close>

text \<open>
  The exceptions the modelled code raises or catches, each with its message
  (\<^verbatim>\<open>str(e)\<close>). \<open>OtherException\<close> stands for any other subclass of \<^verbatim>\<open>Exception\<close>.
\<close>

datatype exn =
    AudioProcessingError string
  | FileNotFoundError string
  | TimeoutExpired string
  | ImportError string
  | ZeroDivisionError string
  | IndexError string
  | KeyError string
  | AttributeError string
  | ValueError string
  | RuntimeError string
  | OverflowError string
  | OSError string
  | OtherException string

fun exn_str :: "exn \<Rightarrow> string" where
  "exn_str (AudioProcessingError m) = m"
| "exn_str (FileNotFoundError m) = m"
| "exn_str (TimeoutExpired m) = m"
| "exn_str (ImportError m) = m"
| "exn_str (ZeroDivisionError m) = m"
| "exn_str (IndexError m) = m"
| "exn_str (KeyError m) = m"
| "exn_str (AttributeError m) = m"
| "exn_str (ValueError m) = m"
| "exn_str (RuntimeError m) = m"
| "exn_str (OverflowError m) = m"
| "exn_str (OSError m) = m"
| "exn_str (OtherException m) = m"

text \<open>A call into a library or the operating system returns a value or raises.\<close>

datatype 'a outcome = Returns 'a | Raises exn

section \<open>Python primitives used by the audio utilities\<close>

text \<open>
  Python integers are \<^typ>\<open>int\<close>, array lengths are \<^typ>\<open>nat\<close>. A finite Python float
  is a \<^typ>\<open>real\<close>: the result of a float operation is taken at its exact value as long
  as that value is in the range of the doubles (the rounding to 53 bits is not modelled).
  Where the source converts a float argument of a caller with \<^verbatim>\<open>int()\<close>, the infinities
  and NaN are values of the model too (\<open>pyfloat\<close> below), with the overflow of the float
  operations and the exceptions of the conversion.
\<close>

text \<open>\<^verbatim>\<open>int(x)\<close> of a finite float: truncation towards zero.\<close>

definition py_int :: "real \<Rightarrow> int" where
  "py_int x = (if 0 \<le> x then \<lfloor>x\<rfloor> else \<lceil>x\<rceil>)"











text \<open>
  A slice bound as Python resolves it against a sequence of length \<open>n\<close>: a negative
  bound counts from the end, and the result is clamped to \<open>[0, n]\<close>.
\<close>

definition slice_bound :: "nat \<Rightarrow> int \<Rightarrow> nat" where
  "slice_bound n i = (if i < 0 then nat (max 0 (int n + i)) else min n (nat i))"


definition py_slice_from :: "'a list \<Rightarrow> int \<Rightarrow> 'a list" where
  "py_slice_from xs i = drop (slice_bound (length xs) i) xs"

section \<open>AudioBuffer (audio\_utils.py)\<close>

text \<open>
  The fields of \<^verbatim>\<open>AudioBuffer\<close>. \<^verbatim>\<open>_lock\<close> is the boolean flag of the source
  (not a mutex): \<^verbatim>\<open>__init__\<close> sets it to \<^verbatim>\<open>False\<close> and no method changes it.
\<close>

record 'a AudioBuffer =
  sample_rate :: int
  max_samples :: int
  buffer :: "'a list"
  lock :: bool

text \<open>
  \<^verbatim>\<open>__init__\<close>, for a finite \<^verbatim>\<open>max_duration\<close> whose product with the rate is in the
  range of the doubles.
\<close>

definition AudioBuffer_init :: "int \<Rightarrow> real \<Rightarrow> 'a AudioBuffer" where
  "AudioBuffer_init rate max_duration =
     \<lparr> sample_rate = rate,
       max_samples = py_int (real_of_int rate * max_duration),
       buffer = [],
       lock = False \<rparr>"

text \<open>
  \<^verbatim>\<open>append\<close> (named \<open>append_samples\<close> here, \<open>append\<close> being list
  concatenation in HOL): return at once when the flag is set; otherwise concatenate and, when the
  length exceeds \<^verbatim>\<open>max_samples\<close>, keep \<^verbatim>\<open>self.buffer[-self.max_samples:]\<close>.
\<close>

definition append_samples :: "'a AudioBuffer \<Rightarrow> 'a list \<Rightarrow> 'a AudioBuffer" where
  "append_samples b data =
     (if lock b then b
      else let buf = buffer b @ data
           in if int (length buf) > max_samples b
              then b\<lparr>buffer := py_slice_from buf (- max_samples b)\<rparr>
              else b\<lparr>buffer := buf\<rparr>)"

text \<open>A sequence of \<^verbatim>\<open>append\<close> calls.\<close>

definition append_all :: "'a AudioBuffer \<Rightarrow> 'a list list \<Rightarrow> 'a AudioBuffer" where
  "append_all b chunks = foldl append_samples b chunks"




definition get_all :: "'a AudioBuffer \<Rightarrow> 'a list" where
  "get_all b = buffer b"

definition is_empty :: "'a AudioBuffer \<Rightarrow> bool" where
  "is_empty b = (length (buffer b) = 0)"

text \<open>The last \<open>c\<close> elements of a list (all of it when it is shorter).\<close>

definition last_n :: "nat \<Rightarrow> 'a list \<Rightarrow> 'a list" where
  "last_n c xs = drop (length xs - c) xs"

section \<open>Strings as the audio utilities print them\<close>

text \<open>
  \<^verbatim>\<open>str.lower()\<close> is a parameter of the model (\<open>str_lower\<close> below): it lowercases
  every cased code point, and its table is not part of the repository. The function
  \<open>ascii_lower\<close> gives its value on the strings of ASCII characters, where only the
  letters \<open>A\<close> to \<open>Z\<close> change; it stands for \<^verbatim>\<open>str.lower()\<close> in the examples, whose
  extensions are ASCII.
\<close>

definition ascii_lower_char :: "char \<Rightarrow> char" where
  "ascii_lower_char c =
     (case map_of (zip ''ABCDEFGHIJKLMNOPQRSTUVWXYZ'' ''abcdefghijklmnopqrstuvwxyz'') c of
        Some l \<Rightarrow> l | None \<Rightarrow> c)"

definition ascii_lower :: "string \<Rightarrow> string" where
  "ascii_lower s = map ascii_lower_char s"

text \<open>\<^verbatim>\<open>str(n)\<close> of an integer, in decimal.\<close>

definition digit_char :: "nat \<Rightarrow> char" where
  "digit_char d = ''0123456789'' ! d"

fun str_nat :: "nat \<Rightarrow> string" where
  "str_nat n = (if n < 10 then [digit_char n] else str_nat (n div 10) @ [digit_char (n mod 10)])"

declare str_nat.simps [simp del]

definition str_int :: "int \<Rightarrow> string" where
  "str_int i = (if i < 0 then CHR ''-'' # str_nat (nat (- i)) else str_nat (nat i))"

text \<open>
  The format \<^verbatim>\<open>{x:.1f}\<close>: the value rounded to one decimal, ties to the even digit
  (the rounding of the exact value, which is what Python prints for a float).
\<close>

definition round_half_even :: "real \<Rightarrow> int" where
  "round_half_even y =
     (let n = \<lfloor>y\<rfloor>; f = y - real_of_int n
      in if f < 1 / 2 then n else if f > 1 / 2 then n + 1
         else if even n then n else n + 1)"

definition format_1f :: "real \<Rightarrow> string" where
  "format_1f x =
     (let t = nat (round_half_even (\<bar>x\<bar> * 10))
      in (if x < 0 then ''-'' else '''') @ str_nat (t div 10) @ ''.'' @ [digit_char (t mod 10)])"

text \<open>
  \<^verbatim>\<open>repr\<close> of a list of strings, as an f-string prints \<^verbatim>\<open>{allowed_formats}\<close>: every
  element between single quotes (escape sequences, which file extensions do not need, are
  not modelled).
\<close>

fun join :: "string \<Rightarrow> string list \<Rightarrow> string" where
  "join sep [] = []"
| "join sep [x] = x"
| "join sep (x # y # ys) = x @ sep @ join sep (y # ys)"

definition repr_str :: "string \<Rightarrow> string" where
  "repr_str s = [CHR 0x27] @ s @ [CHR 0x27]"

definition repr_list :: "string list \<Rightarrow> string" where
  "repr_list xs = ''['' @ join '', '' (map repr_str xs) @ '']''"

section \<open>validate\_audio\_file (audio\_utils.py)\<close>

definition AUDIO_FORMATS :: "(string \<times> string) list" where
  "AUDIO_FORMATS =
     [(''.wav'', ''audio/wav''), (''.mp3'', ''audio/mpeg''), (''.webm'', ''audio/webm''),
      (''.ogg'', ''audio/ogg''), (''.flac'', ''audio/flac''), (''.m4a'', ''audio/mp4'')]"

text \<open>
  What the function asks of \<^verbatim>\<open>Path(file_path)\<close>: its text (\<^verbatim>\<open>str(file_path)\<close>) and
  its \<^verbatim>\<open>suffix\<close> as pathlib computes them, and two calls into the operating system,
  \<^verbatim>\<open>exists()\<close> and \<^verbatim>\<open>stat().st_size\<close>. Both calls can raise: \<^verbatim>\<open>exists()\<close> turns
  only some errors of the underlying \<^verbatim>\<open>stat\<close> into \<^verbatim>\<open>False\<close> and raises the others
  (a name that is too long, for one), and \<^verbatim>\<open>stat()\<close> raises when the file has gone or
  cannot be reached. The function has no \<^verbatim>\<open>try\<close>.
\<close>

record file_path =
  path_text :: string
  path_suffix :: string
  path_exists :: "bool outcome"
  stat_st_size :: "nat outcome"

text \<open>
  \<^verbatim>\<open>if allowed_formats is None: allowed_formats = list(AUDIO_FORMATS.keys())\<close>
\<close>

definition allowed_list :: "string list option \<Rightarrow> string list" where
  "allowed_list allowed_formats =
     (case allowed_formats of None \<Rightarrow> map fst AUDIO_FORMATS | Some fs \<Rightarrow> fs)"

text \<open>
  The size in megabytes is the quotient of two integers, taken at its exact value; it is
  the float of the source for every size below \<open>2\<^sup>5\<^sup>3\<close> bytes.
\<close>

definition validate_audio_file ::
  "(string \<Rightarrow> string) \<Rightarrow> file_path \<Rightarrow> int \<Rightarrow> string list option \<Rightarrow> exn + bool \<times> string"
where
  "validate_audio_file str_lower fp max_size_mb allowed_formats =
     (let allowed = allowed_list allowed_formats
      in case path_exists fp of
           Raises e \<Rightarrow> Inl e
         | Returns ex \<Rightarrow>
             if \<not> ex then Inr (False, ''File not found: '' @ path_text fp)
             else let suffix = str_lower (path_suffix fp)
                  in if suffix \<notin> set allowed
                     then Inr (False, ''Unsupported format: '' @ suffix @ ''. Allowed: ''
                                        @ repr_list allowed)
                     else case stat_st_size fp of
                            Raises e \<Rightarrow> Inl e
                          | Returns st_size \<Rightarrow>
                              let file_size_mb = real st_size / (1024 * 1024)
                              in if file_size_mb > real_of_int max_size_mb
                                 then Inr (False, ''File too large: '' @ format_1f file_size_mb
                                                    @ ''MB > '' @ str_int max_size_mb
                                                    @ ''MB limit'')
                                 else Inr (True, ''''))"

section \<open>remove\_silence (audio\_utils.py)\<close>

text \<open>
  \<^verbatim>\<open>scipy.signal.medfilt\<close> and \<^verbatim>\<open>scipy.signal.hilbert\<close> are library functions: the
  model takes them as the parameters \<open>medfilt\<close> (signal and kernel size) and \<open>hilbert\<close>
  (the analytic signal, complex), each of which returns an array or raises; the function
  has no \<^verbatim>\<open>try\<close>, so what they raise comes out of it. \<^verbatim>\<open>np.abs\<close> is \<open>abs\<close> on the
  real samples and the modulus on the complex ones. The samples are finite floats and
  \<^verbatim>\<open>threshold_db\<close> is a finite float. The parameters \<^verbatim>\<open>sample_rate\<close> and
  \<^verbatim>\<open>hop_length\<close> of the source are not used by its body and are left out.
\<close>





section \<open>get\_audio\_duration (audio\_utils.py)\<close>

text \<open>
  The two ways the function reads a duration: \<^verbatim>\<open>soundfile.info(path).duration\<close> (its
  outcome is \<open>Raises (ImportError _)\<close> when the module cannot be imported), and
  \<^verbatim>\<open>scipy.io.wavfile.read(path)\<close>, which returns the sample rate and the data, of which
  only the length is used.
\<close>

record duration_env =
  sf_info_duration :: "real outcome"
  wav_read :: "(int \<times> nat) outcome"

text \<open>
  The body of the outer \<^verbatim>\<open>try\<close>. Only an \<^verbatim>\<open>ImportError\<close> of the first attempt
  leads to the second; \<^verbatim>\<open>len(data) / sample_rate\<close> raises on a rate of zero.
\<close>

definition get_audio_duration_try :: "duration_env \<Rightarrow> exn + real" where
  "get_audio_duration_try env =
     (case sf_info_duration env of
        Returns d \<Rightarrow> Inr d
      | Raises (ImportError m) \<Rightarrow>
          (case wav_read env of
             Returns (rate, n) \<Rightarrow>
               if rate = 0 then Inl (ZeroDivisionError ''division by zero'')
               else Inr (real n / real_of_int rate)
           | Raises e \<Rightarrow> Inl e)
      | Raises e \<Rightarrow> Inl e)"

text \<open>\<^verbatim>\<open>except Exception as e: ... return 0.0\<close>\<close>

definition get_audio_duration :: "duration_env \<Rightarrow> real" where
  "get_audio_duration env =
     (case get_audio_duration_try env of Inr d \<Rightarrow> d | Inl e \<Rightarrow> 0)"

section \<open>convert\_to\_wav (audio\_utils.py)\<close>

text \<open>
  \<^verbatim>\<open>subprocess.run(cmd, capture_output=True, text=True, timeout=60)\<close> either completes
  with a return code and the captured stderr, or raises (\<^verbatim>\<open>FileNotFoundError\<close> when the
  binary is absent, \<^verbatim>\<open>TimeoutExpired\<close> after the timeout).
\<close>

datatype completed_process = CompletedProcess int string

text \<open>
  The environment of one call: the outcome of running a command with a timeout in seconds,
  the outcome of the body of \<^verbatim>\<open>_convert_with_scipy\<close> (\<open>None\<close> when every statement of
  it completes), and what the duration measurement finds at the output path.
\<close>

record convert_env =
  subprocess_run :: "string list \<Rightarrow> nat \<Rightarrow> completed_process outcome"
  scipy_body :: "exn option"
  output_probe :: duration_env

text \<open>The calls one conversion makes, in order.\<close>

datatype call =
    Call_subprocess_run "string list" nat
  | Call_convert_with_scipy
  | Call_get_audio_duration

text \<open>
  \<^verbatim>\<open>_convert_with_scipy\<close>: any exception of its body is raised again as an
  \<^verbatim>\<open>AudioProcessingError\<close>.
\<close>

definition convert_with_scipy :: "convert_env \<Rightarrow> exn + unit" where
  "convert_with_scipy env =
     (case scipy_body env of
        None \<Rightarrow> Inr ()
      | Some e \<Rightarrow> Inl (AudioProcessingError (''Scipy conversion failed: '' @ exn_str e)))"

definition ffmpeg_cmd :: "string \<Rightarrow> string \<Rightarrow> int \<Rightarrow> bool \<Rightarrow> string list" where
  "ffmpeg_cmd input_path output_path rate to_mono =
     [''ffmpeg'', ''-y'', ''-i'', input_path, ''-ar'', str_int rate,
      ''-ac'', (if to_mono then ''1'' else ''2''), ''-codec:pcm_s16le'', output_path]"

text \<open>
  The inner \<^verbatim>\<open>try\<close> with its \<^verbatim>\<open>except FileNotFoundError\<close>: the calls made and the
  exception that leaves the block, if any.
\<close>

definition convert_inner :: "convert_env \<Rightarrow> string list \<Rightarrow> call list \<times> (exn + unit)" where
  "convert_inner env cmd =
     (case subprocess_run env cmd 60 of
        Returns (CompletedProcess returncode stderr) \<Rightarrow>
          if returncode \<noteq> 0
          then ([Call_subprocess_run cmd 60],
                Inl (AudioProcessingError (''FFmpeg error: '' @ stderr)))
          else ([Call_subprocess_run cmd 60], Inr ())
      | Raises (FileNotFoundError m) \<Rightarrow>
          ([Call_subprocess_run cmd 60, Call_convert_with_scipy], convert_with_scipy env)
      | Raises e \<Rightarrow> ([Call_subprocess_run cmd 60], Inl e))"

text \<open>
  \<^verbatim>\<open>convert_to_wav\<close>, with the paths as their text: \<open>tempdir\<close> is
  \<^verbatim>\<open>tempfile.gettempdir()\<close> and \<open>stem\<close> is \<^verbatim>\<open>input_path.stem\<close>. The outer
  \<^verbatim>\<open>except Exception\<close> raises every failure again as an \<^verbatim>\<open>AudioProcessingError\<close>; the
  duration is measured after the \<^verbatim>\<open>try\<close>, on the output path.
\<close>

definition resolve_output :: "string \<Rightarrow> string \<Rightarrow> string option \<Rightarrow> string" where
  "resolve_output tempdir stem output_path =
     (case output_path of
        None \<Rightarrow> tempdir @ ''/'' @ stem @ ''_converted.wav''
      | Some p \<Rightarrow> p)"

definition convert_to_wav ::
  "convert_env \<Rightarrow> string \<Rightarrow> string \<Rightarrow> string \<Rightarrow> string option \<Rightarrow> int \<Rightarrow> bool
     \<Rightarrow> call list \<times> (exn + string \<times> real)"
where
  "convert_to_wav env tempdir input_path stem output_path rate to_mono =
     (let out = resolve_output tempdir stem output_path
      in case convert_inner env (ffmpeg_cmd input_path out rate to_mono) of
           (calls, Inl e) \<Rightarrow>
             (calls, Inl (AudioProcessingError (''Failed to convert audio: '' @ exn_str e)))
         | (calls, Inr u) \<Rightarrow>
             (calls @ [Call_get_audio_duration],
              Inr (out, get_audio_duration (output_probe env))))"

section \<open>Model lifecycle of the two services\<close>

text \<open>
  The model, the tokenizer and the pipeline are opaque objects: a handle stands for each.
\<close>

type_synonym handle = nat

subsection \<open>WhisperService (whisper\_service.py)\<close>

record whisper_service =
  w_model :: "handle option"
  w_model_size :: string
  w_device :: string
  w_load_time :: "real option"
  w_model_loaded :: bool

text \<open>
  \<^verbatim>\<open>__init__\<close> on the fresh singleton, with the values of \<^verbatim>\<open>config.WHISPER_MODEL_SIZE\<close>
  and \<^verbatim>\<open>config.WHISPER_DEVICE\<close>.
\<close>

definition whisper_init :: "string \<Rightarrow> string \<Rightarrow> whisper_service" where
  "whisper_init model_size device =
     \<lparr> w_model = None, w_model_size = model_size, w_device = device,
       w_load_time = None, w_model_loaded = False \<rparr>"

text \<open>
  What one load attempt meets: \<^verbatim>\<open>torch.cuda.is_available()\<close>, the outcome of
  \<^verbatim>\<open>whisper.load_model(**model_kwargs)\<close>, and the time the attempt takes.
\<close>

record whisper_load_env =
  w_cuda_available :: bool
  w_load_outcome :: "handle outcome"
  w_elapsed :: real

text \<open>
  The \<^verbatim>\<open>try\<close> of \<^verbatim>\<open>load_model\<close> with its \<^verbatim>\<open>except\<close>: the device is resolved first
  and stays resolved; the model, the load time and the flag are assigned only after the
  model has been instantiated; every exception is raised again as a \<^verbatim>\<open>RuntimeError\<close>.
\<close>

definition whisper_load_body ::
  "whisper_load_env \<Rightarrow> whisper_service \<Rightarrow> whisper_service \<times> (exn + unit)"
where
  "whisper_load_body env s =
     (let s1 = (if w_device s = ''auto''
                then s\<lparr>w_device := (if w_cuda_available env then ''cuda'' else ''cpu'')\<rparr>
                else s)
      in case w_load_outcome env of
           Returns h \<Rightarrow>
             (s1\<lparr>w_model := Some h, w_load_time := Some (w_elapsed env),
                 w_model_loaded := True\<rparr>, Inr ())
         | Raises e \<Rightarrow>
             (s1, Inl (RuntimeError (''Whisper model loading failed: '' @ exn_str e))))"

definition whisper_load_model ::
  "whisper_load_env \<Rightarrow> bool \<Rightarrow> whisper_service \<Rightarrow> whisper_service \<times> (exn + unit)"
where
  "whisper_load_model env force_reload s =
     (if w_model_loaded s \<and> \<not> force_reload then (s, Inr ())
      else whisper_load_body env s)"

text \<open>
  \<^verbatim>\<open>get_model_info\<close>: \<^verbatim>\<open>{"status": "not_loaded"}\<close>, or the fields of the loaded model
  (the entries read from \<^verbatim>\<open>torch.cuda\<close> and from the model object are left out).
\<close>

datatype model_info =
    Not_loaded
  | Info (info_name: string) (info_device: string) (info_is_loaded: bool)
         (info_load_time: "real option")

definition whisper_get_model_info :: "whisper_service \<Rightarrow> model_info" where
  "whisper_get_model_info s =
     (if \<not> w_model_loaded s then Not_loaded
      else Info (w_model_size s) (w_device s) (w_model_loaded s) (w_load_time s))"

definition whisper_unload_model :: "whisper_service \<Rightarrow> whisper_service" where
  "whisper_unload_model s =
     (if w_model s \<noteq> None then s\<lparr>w_model := None, w_model_loaded := False\<rparr> else s)"

subsection \<open>SentimentService (sentiment\_service.py)\<close>

record sentiment_service =
  s_model_name :: string
  s_device :: string
  s_tokenizer :: "handle option"
  s_model :: "handle option"
  s_classifier :: "handle option"
  s_load_time :: "real option"
  s_model_loaded :: bool
  s_labels :: "string list"

definition sentiment_init :: "string \<Rightarrow> string \<Rightarrow> sentiment_service" where
  "sentiment_init model_name device =
     \<lparr> s_model_name = model_name, s_device = device, s_tokenizer = None, s_model = None,
       s_classifier = None, s_load_time = None, s_model_loaded = False, s_labels = [] \<rparr>"

text \<open>
  The calls of one load attempt, in the order of the source:
  \<^verbatim>\<open>AutoTokenizer.from_pretrained\<close>, \<^verbatim>\<open>AutoModelForSequenceClassification.from_pretrained\<close>,
  \<^verbatim>\<open>model.to(device)\<close> with \<^verbatim>\<open>model.eval()\<close>, \<^verbatim>\<open>model.config.id2label.values()\<close>,
  and \<^verbatim>\<open>pipeline(...)\<close>.
\<close>

record sentiment_load_env =
  s_cuda_available :: bool
  tokenizer_outcome :: "handle outcome"
  model_outcome :: "handle outcome"
  to_device_outcome :: "unit outcome"
  id2label_outcome :: "string list outcome"
  pipeline_outcome :: "handle outcome"
  s_elapsed :: real

text \<open>
  The statements of the \<^verbatim>\<open>try\<close> in order; an exception leaves the assignments made
  before it in place.
\<close>

definition sentiment_load_try ::
  "sentiment_load_env \<Rightarrow> sentiment_service \<Rightarrow> sentiment_service \<times> (exn + unit)"
where
  "sentiment_load_try env s =
     (let s1 = (if s_device s = ''auto''
                then s\<lparr>s_device := (if s_cuda_available env then ''cuda'' else ''cpu'')\<rparr>
                else s)
      in case tokenizer_outcome env of
           Raises e \<Rightarrow> (s1, Inl e)
         | Returns tok \<Rightarrow>
             (let s2 = s1\<lparr>s_tokenizer := Some tok\<rparr>
              in case model_outcome env of
                   Raises e \<Rightarrow> (s2, Inl e)
                 | Returns mdl \<Rightarrow>
                     (let s3 = s2\<lparr>s_model := Some mdl\<rparr>
                      in case to_device_outcome env of
                           Raises e \<Rightarrow> (s3, Inl e)
                         | Returns u \<Rightarrow>
                             (case id2label_outcome env of
                                Raises e \<Rightarrow> (s3, Inl e)
                              | Returns ls \<Rightarrow>
                                  (let s4 = s3\<lparr>s_labels := ls\<rparr>
                                   in case pipeline_outcome env of
                                        Raises e \<Rightarrow> (s4, Inl e)
                                      | Returns p \<Rightarrow>
                                          (s4\<lparr>s_classifier := Some p,
                                              s_load_time := Some (s_elapsed env),
                                              s_model_loaded := True\<rparr>, Inr ()))))))"

definition sentiment_load_body ::
  "sentiment_load_env \<Rightarrow> sentiment_service \<Rightarrow> sentiment_service \<times> (exn + unit)"
where
  "sentiment_load_body env s =
     (case sentiment_load_try env s of
        (s', Inl e) \<Rightarrow>
          (s', Inl (RuntimeError (''Sentiment model loading failed: '' @ exn_str e)))
      | (s', Inr u) \<Rightarrow> (s', Inr u))"

definition sentiment_load_model ::
  "sentiment_load_env \<Rightarrow> bool \<Rightarrow> sentiment_service \<Rightarrow> sentiment_service \<times> (exn + unit)"
where
  "sentiment_load_model env force_reload s =
     (if s_model_loaded s \<and> \<not> force_reload then (s, Inr ())
      else sentiment_load_body env s)"

definition sentiment_get_model_info :: "sentiment_service \<Rightarrow> model_info" where
  "sentiment_get_model_info s =
     (if \<not> s_model_loaded s then Not_loaded
      else Info (s_model_name s) (s_device s) (s_model_loaded s) (s_load_time s))"

definition sentiment_unload_model :: "sentiment_service \<Rightarrow> sentiment_service" where
  "sentiment_unload_model s =
     (if s_model s \<noteq> None
      then s\<lparr>s_model := None, s_tokenizer := None, s_classifier := None,
             s_model_loaded := False\<rparr>
      else s)"

section \<open>Emotion classification (sentiment\_service.py)\<close>

text \<open>
  Modelled from the spec: the enumeration \<^verbatim>\<open>SentimentLabel\<close> is declared in
  \<^verbatim>\<open>models/schemas.py\<close>, which is not among the sources. The spec gives the fixed closed
  set \<open>{joy, sadness, anger, fear, love, surprise, neutral}\<close>, and the service names
  these seven members (\<^verbatim>\<open>SentimentLabel.JOY\<close>, ..., \<^verbatim>\<open>SentimentLabel.NEUTRAL\<close>).
\<close>

datatype SentimentLabel = JOY | SADNESS | ANGER | FEAR | LOVE | SURPRISE | NEUTRAL

text \<open>
  Modelled from the spec: the members that \<^verbatim>\<open>for label in SentimentLabel\<close> visits, each
  label of the fixed set once.
\<close>

definition all_labels :: "SentimentLabel list" where
  "all_labels = [JOY, SADNESS, ANGER, FEAR, LOVE, SURPRISE, NEUTRAL]"

definition EMOTION_MAPPING :: "(string \<times> SentimentLabel) list" where
  "EMOTION_MAPPING =
     [(''joy'', JOY), (''sadness'', SADNESS), (''anger'', ANGER), (''fear'', FEAR),
      (''love'', LOVE), (''surprise'', SURPRISE)]"

text \<open>\<^verbatim>\<open>self.EMOTION_MAPPING.get(label, SentimentLabel.NEUTRAL)\<close>\<close>

definition map_label :: "string \<Rightarrow> SentimentLabel" where
  "map_label l = (case map_of EMOTION_MAPPING l of Some x \<Rightarrow> x | None \<Rightarrow> NEUTRAL)"

text \<open>
  The input text is a sequence of Unicode code points. \<^verbatim>\<open>str.strip()\<close> removes the
  leading and trailing characters that \<^verbatim>\<open>str.isspace\<close> accepts.
\<close>

definition is_space :: "nat \<Rightarrow> bool" where
  "is_space c \<longleftrightarrow>
     (9 \<le> c \<and> c \<le> 13) \<or> (28 \<le> c \<and> c \<le> 32) \<or> c = 133 \<or> c = 160 \<or> c = 5760
     \<or> (8192 \<le> c \<and> c \<le> 8202) \<or> c = 8232 \<or> c = 8233 \<or> c = 8239 \<or> c = 8287 \<or> c = 12288"

definition py_strip :: "nat list \<Rightarrow> nat list" where
  "py_strip text = rev (dropWhile is_space (rev (dropWhile is_space text)))"

text \<open>\<^verbatim>\<open>not text or not text.strip()\<close>\<close>

definition is_blank :: "nat list \<Rightarrow> bool" where
  "is_blank text \<longleftrightarrow> text = [] \<or> py_strip text = []"

text \<open>
  One entry of the classifier's output: a dictionary that may have a \<^verbatim>\<open>"label"\<close> and a
  \<^verbatim>\<open>"score"\<close>. The pipeline returns a list of entries per input text (\<open>Nested\<close>) or a
  list of entries (\<open>Flat\<close>); both shapes are handled by \<^verbatim>\<open>analyze\<close>.
\<close>

datatype raw_result = Raw_result (raw_label: "string option") (raw_score: "real option")

datatype classifier_output = Nested "raw_result list list" | Flat "raw_result list"

text \<open>
  What an inference call meets: the environment of the load it may trigger, and the
  outcome of \<^verbatim>\<open>self.classifier(text)\<close>.
\<close>

record sentiment_env =
  lazy_load :: sentiment_load_env
  classifier_call :: "nat list \<Rightarrow> classifier_output outcome"

text \<open>\<^verbatim>\<open>if not self._model_loaded: self.load_model()\<close>\<close>

definition ensure_loaded ::
  "sentiment_env \<Rightarrow> sentiment_service \<Rightarrow> sentiment_service \<times> (exn + unit)"
where
  "ensure_loaded env s =
     (if \<not> s_model_loaded s then sentiment_load_model (lazy_load env) False s
      else (s, Inr ()))"

text \<open>Calling \<^verbatim>\<open>self.classifier\<close>, which is \<^verbatim>\<open>None\<close> until a pipeline is assigned.\<close>

definition call_classifier ::
  "sentiment_env \<Rightarrow> sentiment_service \<Rightarrow> nat list \<Rightarrow> classifier_output outcome"
where
  "call_classifier env s text =
     (case s_classifier s of
        None \<Rightarrow> Raises (OtherException ''NoneType object is not callable'')
      | Some p \<Rightarrow> classifier_call env text)"

subsection \<open>analyze\_with\_all\_scores\<close>

text \<open>\<^verbatim>\<open>result.get("label", "unknown")\<close> and \<^verbatim>\<open>result.get("score", 0.0)\<close>\<close>

definition label_of :: "raw_result \<Rightarrow> string" where
  "label_of r = (case raw_label r of Some l \<Rightarrow> l | None \<Rightarrow> ''unknown'')"

definition score_of :: "raw_result \<Rightarrow> real" where
  "score_of r = (case raw_score r of Some x \<Rightarrow> x | None \<Rightarrow> 0)"

text \<open>The loop \<^verbatim>\<open>all_scores[mapped] = score\<close> over the entries.\<close>

fun collect_scores ::
  "raw_result list \<Rightarrow> (SentimentLabel \<rightharpoonup> real) \<Rightarrow> (SentimentLabel \<rightharpoonup> real)"
where
  "collect_scores [] m = m"
| "collect_scores (r # rs) m = collect_scores rs (m(map_label (label_of r) \<mapsto> score_of r))"

text \<open>
  \<^verbatim>\<open>for label in SentimentLabel: if label not in all_scores: all_scores[label] = 0.0\<close>
\<close>

definition fill_missing :: "(SentimentLabel \<rightharpoonup> real) \<Rightarrow> (SentimentLabel \<rightharpoonup> real)" where
  "fill_missing m = foldl (\<lambda>acc l. if acc l = None then acc(l \<mapsto> 0) else acc) m all_labels"

text \<open>\<^verbatim>\<open>{label: 0.0 for label in SentimentLabel}\<close>\<close>

definition zero_distribution :: "SentimentLabel \<rightharpoonup> real" where
  "zero_distribution = foldl (\<lambda>acc l. acc(l \<mapsto> 0)) Map.empty all_labels"

text \<open>
  The body of the \<^verbatim>\<open>try\<close>. \<^verbatim>\<open>results[0]\<close> raises on an empty list; on the flat shape
  it is a dictionary, whose iteration yields its keys, which are strings without a
  \<^verbatim>\<open>get\<close> method.
\<close>

definition all_scores_try ::
  "sentiment_env \<Rightarrow> sentiment_service \<Rightarrow> nat list \<Rightarrow> exn + (SentimentLabel \<rightharpoonup> real)"
where
  "all_scores_try env s text =
     (case call_classifier env s text of
        Raises e \<Rightarrow> Inl e
      | Returns (Nested []) \<Rightarrow> Inl (IndexError ''list index out of range'')
      | Returns (Nested (rs # rest)) \<Rightarrow> Inr (fill_missing (collect_scores rs Map.empty))
      | Returns (Flat []) \<Rightarrow> Inl (IndexError ''list index out of range'')
      | Returns (Flat (r # rest)) \<Rightarrow>
          if raw_label r = None \<and> raw_score r = None then Inr (fill_missing Map.empty)
          else Inl (AttributeError ''str object has no attribute get''))"

definition analyze_with_all_scores ::
  "sentiment_env \<Rightarrow> sentiment_service \<Rightarrow> nat list
     \<Rightarrow> sentiment_service \<times> (exn + (SentimentLabel \<rightharpoonup> real))"
where
  "analyze_with_all_scores env s text =
     (case ensure_loaded env s of
        (s1, Inl e) \<Rightarrow> (s1, Inl e)
      | (s1, Inr u) \<Rightarrow>
          if is_blank text then (s1, Inr zero_distribution)
          else (case all_scores_try env s1 text of
                  Inl e \<Rightarrow>
                    (s1, Inl (RuntimeError (''Full sentiment analysis error: '' @ exn_str e)))
                | Inr m \<Rightarrow> (s1, Inr m)))"

subsection \<open>analyze\<close>

record SentimentResult =
  result_label :: SentimentLabel
  result_score :: real

text \<open>
  \<^verbatim>\<open>sorted(results, key=lambda x: x["score"], reverse=True)\<close>: the key of every entry
  is read first (a missing score is a \<^verbatim>\<open>KeyError\<close>), and the sort is stable.
\<close>

fun keyed :: "raw_result list \<Rightarrow> exn + (raw_result \<times> real) list" where
  "keyed [] = Inr []"
| "keyed (r # rs) =
     (case raw_score r of
        None \<Rightarrow> Inl (KeyError ''score'')
      | Some x \<Rightarrow> (case keyed rs of Inl e \<Rightarrow> Inl e | Inr ks \<Rightarrow> Inr ((r, x) # ks)))"

fun insert_desc :: "raw_result \<times> real \<Rightarrow> (raw_result \<times> real) list \<Rightarrow> (raw_result \<times> real) list" where
  "insert_desc x [] = [x]"
| "insert_desc x (y # ys) = (if snd y > snd x then y # insert_desc x ys else x # y # ys)"

definition sorted_desc :: "(raw_result \<times> real) list \<Rightarrow> (raw_result \<times> real) list" where
  "sorted_desc ks = foldr insert_desc ks []"

text \<open>A dictionary with its insertion order: assigning to a present key keeps its place.\<close>

fun dict_set :: "(string \<times> real) list \<Rightarrow> string \<Rightarrow> real \<Rightarrow> (string \<times> real) list" where
  "dict_set [] k v = [(k, v)]"
| "dict_set ((k', v') # kvs) k v =
     (if k' = k then (k, v) # kvs else (k', v') # dict_set kvs k v)"

text \<open>\<^verbatim>\<open>{r["label"]: r["score"] for r in ...}\<close>: a missing label is a \<^verbatim>\<open>KeyError\<close>.\<close>

fun build_scores ::
  "(raw_result \<times> real) list \<Rightarrow> (string \<times> real) list \<Rightarrow> exn + (string \<times> real) list"
where
  "build_scores [] d = Inr d"
| "build_scores ((r, x) # ks) d =
     (case raw_label r of
        None \<Rightarrow> Inl (KeyError ''label'')
      | Some l \<Rightarrow> build_scores ks (dict_set d l x))"

text \<open>\<^verbatim>\<open>max(scores, key=scores.get)\<close>: the first key with the greatest score.\<close>

fun first_max :: "string \<times> real \<Rightarrow> (string \<times> real) list \<Rightarrow> string \<times> real" where
  "first_max best [] = best"
| "first_max best (kv # kvs) = first_max (if snd kv > snd best then kv else best) kvs"

text \<open>
  The extraction of the scores from a non-empty list of entries, whose first entry decides
  the format.
\<close>

definition extract_scores :: "raw_result list \<Rightarrow> exn + (string \<times> real) list" where
  "extract_scores rs =
     (case rs of
        [] \<Rightarrow> Inl (IndexError ''list index out of range'')
      | r # rest \<Rightarrow>
          if raw_score r \<noteq> None
          then (case keyed rs of
                  Inl e \<Rightarrow> Inl e
                | Inr ks \<Rightarrow> build_scores (sorted_desc ks) [])
          else Inr [])"

definition analyze_try ::
  "sentiment_env \<Rightarrow> sentiment_service \<Rightarrow> nat list \<Rightarrow> exn + SentimentResult"
where
  "analyze_try env s text =
     (case call_classifier env s text of
        Raises e \<Rightarrow> Inl e
      | Returns out \<Rightarrow>
          (case (case out of
                   Nested [] \<Rightarrow> Inr []
                 | Nested (inner # rest) \<Rightarrow> extract_scores inner
                 | Flat [] \<Rightarrow> Inr []
                 | Flat (r # rest) \<Rightarrow> extract_scores (r # rest)) of
             Inl e \<Rightarrow> Inl e
           | Inr scores \<Rightarrow>
               (let dominant = (case scores of
                                  [] \<Rightarrow> (''neutral'', 1)
                                | kv # kvs \<Rightarrow> first_max kv kvs)
                in Inr \<lparr>result_label = map_label (fst dominant),
                         result_score = snd dominant\<rparr>)))"

definition analyze ::
  "sentiment_env \<Rightarrow> sentiment_service \<Rightarrow> nat list \<Rightarrow> sentiment_service \<times> (exn + SentimentResult)"
where
  "analyze env s text =
     (case ensure_loaded env s of
        (s1, Inl e) \<Rightarrow> (s1, Inl e)
      | (s1, Inr u) \<Rightarrow>
          if is_blank text then (s1, Inl (ValueError ''Input text cannot be empty''))
          else (case analyze_try env s1 text of
                  Inl e \<Rightarrow> (s1, Inl (RuntimeError (''Sentiment analysis error: '' @ exn_str e)))
                | Inr r \<Rightarrow> (s1, Inr r)))"

section \<open>Two threads and the first load (whisper\_service.py)\<close>

text \<open>
  The service is one object shared by the threads (the module creates it once, and
  \<^verbatim>\<open>__new__\<close> hands the same instance to everyone). \<^verbatim>\<open>load_model\<close> takes no lock:
  \<^verbatim>\<open>_lock\<close> is used only in \<^verbatim>\<open>__new__\<close>. A thread that makes an inference call runs,
  as far as the load is concerned, three steps that read or write \<^verbatim>\<open>_model_loaded\<close>: the
  test \<^verbatim>\<open>if not self._model_loaded\<close> of \<^verbatim>\<open>transcribe\<close>, the test
  \<^verbatim>\<open>if self._model_loaded and not force_reload\<close> of \<^verbatim>\<open>load_model\<close>, and the load
  sequence, which ends by setting the flag. The scheduler may switch threads between
  these steps.
\<close>

datatype thread_pc = At_inference_test | At_load_test | At_load_sequence | Past_load

text \<open>
  The shared service, where each thread stands, and the threads that have run the load
  sequence, in the order in which they did.
\<close>

record shared_state =
  service :: whisper_service
  pcs :: "thread_pc list"
  load_log :: "nat list"

definition thread_step :: "whisper_load_env \<Rightarrow> nat \<Rightarrow> shared_state \<Rightarrow> shared_state" where
  "thread_step env t st =
     (if t \<ge> length (pcs st) then st
      else case pcs st ! t of
             At_inference_test \<Rightarrow>
               st\<lparr>pcs := (pcs st)[t := (if \<not> w_model_loaded (service st) then At_load_test
                                         else Past_load)]\<rparr>
           | At_load_test \<Rightarrow>
               st\<lparr>pcs := (pcs st)[t := (if w_model_loaded (service st) then Past_load
                                         else At_load_sequence)]\<rparr>
           | At_load_sequence \<Rightarrow>
               st\<lparr>service := fst (whisper_load_body env (service st)),
                   pcs := (pcs st)[t := Past_load],
                   load_log := load_log st @ [t]\<rparr>
           | Past_load \<Rightarrow> st)"

text \<open>A schedule is the sequence of the threads that take the next step.\<close>

definition run_schedule :: "whisper_load_env \<Rightarrow> nat list \<Rightarrow> shared_state \<Rightarrow> shared_state" where
  "run_schedule env schedule st = foldl (\<lambda>st t. thread_step env t st) st schedule"

text \<open>Two threads about to make their first inference call on the unloaded service.\<close>

definition two_first_calls :: "string \<Rightarrow> string \<Rightarrow> shared_state" where
  "two_first_calls model_size device =
     \<lparr> service = whisper_init model_size device,
       pcs = [At_inference_test, At_inference_test],
       load_log = [] \<rparr>"

section \<open>Properties of the ring buffer\<close>

subsection \<open>Truncation and slicing\<close>







lemma slice_bound_neg: "0 < m \<Longrightarrow> slice_bound n (- m) = n - nat m"
  by (auto simp: slice_bound_def)

subsection \<open>Float operations\<close>













subsection \<open>get\_chunk\<close>













subsection \<open>append\<close>

lemma append_samples_frame:
  "max_samples (append_samples b data) = max_samples b \<and>
   lock (append_samples b data) = lock b \<and>
   sample_rate (append_samples b data) = sample_rate b"
  by (simp add: append_samples_def Let_def)

lemma length_last_n: "length (last_n c xs) = min c (length xs)"
  by (auto simp: last_n_def)

lemma last_n_prefix: "c \<le> length ws \<Longrightarrow> last_n c (us @ ws) = last_n c ws"
  by (simp add: last_n_def)

lemma last_n_last_n_app: "last_n c (last_n c xs @ ys) = last_n c (xs @ ys)"
proof (cases "c \<le> length xs")
  case False
  hence "last_n c xs = xs" by (simp add: last_n_def)
  thus ?thesis by simp
next
  case True
  define us where "us = take (length xs - c) xs"
  define zs where "zs = last_n c xs"
  have xs: "xs = us @ zs" by (simp add: us_def zs_def last_n_def)
  have len: "c \<le> length (zs @ ys)" using True by (simp add: zs_def length_last_n)
  have "last_n c (xs @ ys) = last_n c (us @ (zs @ ys))" by (simp add: xs)
  also have "\<dots> = last_n c (zs @ ys)" using len by (rule last_n_prefix)
  finally show ?thesis by (simp add: zs_def)
qed

text \<open>
  With a capacity of at least one sample, one \<^verbatim>\<open>append\<close> leaves the last
  \<open>max_samples\<close> samples of the concatenation.
\<close>

lemma append_samples_positive_capacity:
  assumes "0 < max_samples b" "\<not> lock b"
  shows "buffer (append_samples b data) = last_n (nat (max_samples b)) (buffer b @ data)"
proof -
  define buf where "buf = buffer b @ data"
  show ?thesis
  proof (cases "int (length buf) > max_samples b")
    case True
    hence "buffer (append_samples b data) = py_slice_from buf (- max_samples b)"
      using assms by (simp add: append_samples_def buf_def)
    also have "\<dots> = drop (length buf - nat (max_samples b)) buf"
      by (simp only: py_slice_from_def slice_bound_neg[OF assms(1)])
    finally show ?thesis by (simp only: last_n_def buf_def)
  next
    case False
    hence le: "length buf - nat (max_samples b) = 0" by simp
    from False have "buffer (append_samples b data) = buf"
      using assms by (simp add: append_samples_def buf_def)
    also have "\<dots> = drop (length buf - nat (max_samples b)) buf"
      by (simp only: le drop_0)
    finally show ?thesis by (simp only: last_n_def buf_def)
  qed
qed

text \<open>
  With a capacity \<open>C\<close> of at least one sample, any sequence of appends leaves the most
  recent \<open>C\<close> samples in their order, so never more than \<open>C\<close>.
\<close>

lemma append_all_positive_capacity:
  assumes "0 < max_samples b" "\<not> lock b" "int (length (buffer b)) \<le> max_samples b"
  shows "buffer (append_all b chunks) = last_n (nat (max_samples b)) (buffer b @ concat chunks)"
  using assms
proof (induction chunks arbitrary: b)
  case Nil
  then show ?case by (simp add: append_all_def last_n_def)
next
  case (Cons d ds)
  let ?b' = "append_samples b d"
  let ?c = "nat (max_samples b)"
  have m: "max_samples ?b' = max_samples b" "lock ?b' = lock b"
    using append_samples_frame[of b d] by simp_all
  have b': "buffer ?b' = last_n ?c (buffer b @ d)"
    using append_samples_positive_capacity[OF Cons.prems(1,2)] .
  have len: "int (length (buffer ?b')) \<le> max_samples ?b'"
    unfolding b' m length_last_n using Cons.prems(1) by simp
  from Cons.IH[of ?b'] Cons.prems m len
  have "buffer (append_all ?b' ds) = last_n ?c (buffer ?b' @ concat ds)"
    by simp
  also have "\<dots> = last_n ?c ((buffer b @ d) @ concat ds)"
    unfolding b' by (rule last_n_last_n_app)
  finally show ?case by (simp add: append_all_def)
qed

lemma append_all_from_init:
  assumes "0 < max_samples (AudioBuffer_init rate dur :: 'a AudioBuffer)"
  shows "buffer (append_all (AudioBuffer_init rate dur :: 'a AudioBuffer) chunks)
           = last_n (nat (py_int (real_of_int rate * dur))) (concat chunks)"
  using append_all_positive_capacity[of "AudioBuffer_init rate dur :: 'a AudioBuffer" chunks] assms
  by (simp add: AudioBuffer_init_def)

text \<open>
  In particular, once more than \<open>C\<close> samples have been appended to a fresh buffer of
  capacity \<open>C \<ge> 1\<close>, it holds exactly \<open>C\<close> samples: the last \<open>C\<close> appended.
\<close>

lemma append_all_overflow:
  fixes chunks :: "'a list list"
  assumes "0 < max_samples (AudioBuffer_init rate dur :: 'a AudioBuffer)"
    and "int (length (concat chunks)) > max_samples (AudioBuffer_init rate dur :: 'a AudioBuffer)"
  shows "int (length (buffer (append_all (AudioBuffer_init rate dur :: 'a AudioBuffer) chunks)))
           = max_samples (AudioBuffer_init rate dur :: 'a AudioBuffer) \<and>
         buffer (append_all (AudioBuffer_init rate dur :: 'a AudioBuffer) chunks)
           = drop (length (concat chunks)
                     - nat (max_samples (AudioBuffer_init rate dur :: 'a AudioBuffer)))
               (concat chunks)"
  using append_all_from_init[OF assms(1), of chunks] assms
  by (simp add: AudioBuffer_init_def last_n_def)

text \<open>
  Claim C4 at capacity 0. \<^verbatim>\<open>AudioBuffer(sample_rate=16000, max_duration=0.0)\<close> has
  \<open>max_samples = 0\<close>; after \<^verbatim>\<open>append([0.25])\<close> the length 1 exceeds the capacity, and the
  slice \<^verbatim>\<open>self.buffer[-0:]\<close> has kept the whole buffer: the invariant that the length
  never exceeds the capacity is broken.
\<close>

theorem append_zero_capacity_keeps_all:
  "max_samples (AudioBuffer_init 16000 0 :: real AudioBuffer) = 0 \<and>
   buffer (append_samples (AudioBuffer_init 16000 0) [1 / 4 :: real]) = [1 / 4] \<and>
   int (length (buffer (append_samples (AudioBuffer_init 16000 0) [1 / 4 :: real])))
     > max_samples (AudioBuffer_init 16000 0 :: real AudioBuffer)"
  by (simp add: append_samples_def AudioBuffer_init_def py_int_def py_slice_from_def
      slice_bound_def)

section \<open>Properties of validate\_audio\_file\<close>

text \<open>The size check in bytes: \<open>size / 2\<^sup>2\<^sup>0 > m\<close> exactly when \<open>size > m * 2\<^sup>2\<^sup>0\<close>.\<close>

lemma size_check_bytes:
  "real sz / (1024 * 1024) > real_of_int m \<longleftrightarrow> int sz > m * 1048576"
proof -
  have "real sz / (1024 * 1024) > real_of_int m
        \<longleftrightarrow> real_of_int m * 1048576 < real_of_int (int sz)"
    by (simp add: field_simps)
  also have "\<dots> \<longleftrightarrow> real_of_int (m * 1048576) < real_of_int (int sz)"
    by simp
  also have "\<dots> \<longleftrightarrow> m * 1048576 < int sz"
    by (rule of_int_less_iff)
  finally show ?thesis .
qed

lemma validate_exists_raises:
  "path_exists fp = Raises e \<Longrightarrow> validate_audio_file lw fp m af = Inl e"
  by (simp add: validate_audio_file_def)

lemma validate_not_found:
  "path_exists fp = Returns False \<Longrightarrow>
     validate_audio_file lw fp m af = Inr (False, ''File not found: '' @ path_text fp)"
  by (simp add: validate_audio_file_def)

lemma validate_unsupported:
  "path_exists fp = Returns True \<Longrightarrow> lw (path_suffix fp) \<notin> set (allowed_list af) \<Longrightarrow>
     validate_audio_file lw fp m af =
       Inr (False, ''Unsupported format: '' @ lw (path_suffix fp) @ ''. Allowed: ''
                     @ repr_list (allowed_list af))"
  by (simp add: validate_audio_file_def)

lemma validate_stat_raises:
  "path_exists fp = Returns True \<Longrightarrow> lw (path_suffix fp) \<in> set (allowed_list af) \<Longrightarrow>
     stat_st_size fp = Raises e \<Longrightarrow> validate_audio_file lw fp m af = Inl e"
  by (simp add: validate_audio_file_def)

lemma validate_sized:
  "path_exists fp = Returns True \<Longrightarrow> lw (path_suffix fp) \<in> set (allowed_list af) \<Longrightarrow>
     stat_st_size fp = Returns sz \<Longrightarrow>
     validate_audio_file lw fp m af =
       (if int sz > m * 1048576
        then Inr (False, ''File too large: '' @ format_1f (real sz / (1024 * 1024))
                           @ ''MB > '' @ str_int m @ ''MB limit'')
        else Inr (True, ''''))"
  using size_check_bytes[of m sz] by (simp add: validate_audio_file_def Let_def)

text \<open>The result is \<open>(True, r)\<close> exactly when the three checks pass, and then \<open>r\<close> is empty.\<close>

lemma validate_true_iff:
  "validate_audio_file lw fp m af = Inr (True, r) \<longleftrightarrow>
     r = '''' \<and> path_exists fp = Returns True \<and> lw (path_suffix fp) \<in> set (allowed_list af)
       \<and> (\<exists>sz. stat_st_size fp = Returns sz \<and> int sz \<le> m * 1048576)"
proof (cases "path_exists fp")
  case (Raises e)
  thus ?thesis by (simp add: validate_exists_raises)
next
  case (Returns ex)
  show ?thesis
  proof (cases ex)
    case False
    thus ?thesis using Returns by (simp add: validate_not_found)
  next
    case True
    from Returns True have ex: "path_exists fp = Returns True" by simp
    show ?thesis
    proof (cases "lw (path_suffix fp) \<in> set (allowed_list af)")
      case False
      thus ?thesis using ex by (simp add: validate_unsupported)
    next
      case suf: True
      show ?thesis
      proof (cases "stat_st_size fp")
        case (Raises e)
        thus ?thesis using ex suf by (simp add: validate_stat_raises)
      next
        case (Returns sz)
        thus ?thesis using ex suf by (auto simp: validate_sized)
      qed
    qed
  qed
qed

text \<open>The function raises exactly when one of the two calls it makes raises.\<close>

lemma validate_raises_iff:
  "validate_audio_file lw fp m af = Inl e \<longleftrightarrow>
     path_exists fp = Raises e
     \<or> (path_exists fp = Returns True \<and> lw (path_suffix fp) \<in> set (allowed_list af)
          \<and> stat_st_size fp = Raises e)"
proof (cases "path_exists fp")
  case (Raises e')
  thus ?thesis by (auto simp: validate_exists_raises)
next
  case (Returns ex)
  show ?thesis
  proof (cases ex)
    case False
    thus ?thesis using Returns by (simp add: validate_not_found)
  next
    case True
    from Returns True have ex: "path_exists fp = Returns True" by simp
    show ?thesis
    proof (cases "lw (path_suffix fp) \<in> set (allowed_list af)")
      case False
      thus ?thesis using ex by (simp add: validate_unsupported)
    next
      case suf: True
      show ?thesis
      proof (cases "stat_st_size fp")
        case (Raises e')
        thus ?thesis using ex suf by (auto simp: validate_stat_raises)
      next
        case (Returns sz)
        thus ?thesis using ex suf by (simp add: validate_sized)
      qed
    qed
  qed
qed

text \<open>
  Claim C7, as the code has it. \<^verbatim>\<open>validate_audio_file\<close> performs its three checks in
  order and stops at the first that fails: (1) a path that does not exist is reported as
  not found, whatever its extension and size; (2) an existing path whose extension,
  lowercased, is not a member of the allowed list as it was given is reported as an
  unsupported format, whatever its size; (3) a file that passes (1) and (2) and whose size
  is above \<open>max_size_mb\<close> megabytes gets the reason
  \<^verbatim>\<open>File too large: <size>MB > <limit>MB limit\<close>, which names the measured size (one
  decimal) and the limit. The result is \<open>(True, "")\<close> exactly when the three checks pass.
  The function is not free of exceptions: it raises exactly when \<^verbatim>\<open>exists()\<close> raises,
  or when \<^verbatim>\<open>stat()\<close> raises on a path that passed (1) and (2), and it raises that
  exception. The size clauses are stated for files below \<open>2\<^sup>5\<^sup>3\<close> bytes.
\<close>

theorem validate_audio_file_checks:
  "(path_exists fp = Returns False \<longrightarrow>
      validate_audio_file lw fp m af = Inr (False, ''File not found: '' @ path_text fp)) \<and>
   (path_exists fp = Returns True \<and> lw (path_suffix fp) \<notin> set (allowed_list af) \<longrightarrow>
      validate_audio_file lw fp m af =
        Inr (False, ''Unsupported format: '' @ lw (path_suffix fp) @ ''. Allowed: ''
                      @ repr_list (allowed_list af))) \<and>
   (path_exists fp = Returns True \<and> lw (path_suffix fp) \<in> set (allowed_list af)
      \<and> stat_st_size fp = Returns sz \<and> sz < 2 ^ 53 \<and> int sz > m * 1048576 \<longrightarrow>
      validate_audio_file lw fp m af =
        Inr (False, ''File too large: '' @ format_1f (real sz / (1024 * 1024))
                      @ ''MB > '' @ str_int m @ ''MB limit'')) \<and>
   ((\<forall>sz. stat_st_size fp = Returns sz \<longrightarrow> sz < 2 ^ 53) \<longrightarrow>
      (validate_audio_file lw fp m af = Inr (True, r) \<longleftrightarrow>
         r = '''' \<and> path_exists fp = Returns True
           \<and> lw (path_suffix fp) \<in> set (allowed_list af)
           \<and> (\<exists>sz. stat_st_size fp = Returns sz \<and> int sz \<le> m * 1048576))) \<and>
   (validate_audio_file lw fp m af = Inl e \<longleftrightarrow>
      path_exists fp = Raises e
      \<or> (path_exists fp = Returns True \<and> lw (path_suffix fp) \<in> set (allowed_list af)
           \<and> stat_st_size fp = Raises e))"
proof (intro conjI impI)
  assume "path_exists fp = Returns False"
  thus "validate_audio_file lw fp m af = Inr (False, ''File not found: '' @ path_text fp)"
    by (rule validate_not_found)
next
  assume "path_exists fp = Returns True \<and> lw (path_suffix fp) \<notin> set (allowed_list af)"
  thus "validate_audio_file lw fp m af =
        Inr (False, ''Unsupported format: '' @ lw (path_suffix fp) @ ''. Allowed: ''
                      @ repr_list (allowed_list af))"
    by (simp add: validate_unsupported)
next
  assume "path_exists fp = Returns True \<and> lw (path_suffix fp) \<in> set (allowed_list af)
      \<and> stat_st_size fp = Returns sz \<and> sz < 2 ^ 53 \<and> int sz > m * 1048576"
  thus "validate_audio_file lw fp m af =
        Inr (False, ''File too large: '' @ format_1f (real sz / (1024 * 1024))
                      @ ''MB > '' @ str_int m @ ''MB limit'')"
    by (simp add: validate_sized)
next
  show "validate_audio_file lw fp m af = Inr (True, r) \<longleftrightarrow>
         r = '''' \<and> path_exists fp = Returns True
           \<and> lw (path_suffix fp) \<in> set (allowed_list af)
           \<and> (\<exists>sz. stat_st_size fp = Returns sz \<and> int sz \<le> m * 1048576)"
    by (rule validate_true_iff)
next
  show "validate_audio_file lw fp m af = Inl e \<longleftrightarrow>
      path_exists fp = Raises e
      \<or> (path_exists fp = Returns True \<and> lw (path_suffix fp) \<in> set (allowed_list af)
           \<and> stat_st_size fp = Raises e)"
    by (rule validate_raises_iff)
qed

text \<open>
  The theorem at \<^verbatim>\<open>/tmp/a.WAV\<close> with the default list and a limit of 50 MB: too large
  at 62914561 bytes, valid at 1024 bytes, not found when it does not exist, and the
  \<^verbatim>\<open>OSError\<close> of \<^verbatim>\<open>stat()\<close> comes out of the function.
\<close>

theorem validate_audio_file_checks_witness:
  "validate_audio_file ascii_lower \<lparr>path_text = ''/tmp/a.WAV'', path_suffix = ''.WAV'',
      path_exists = Returns True, stat_st_size = Returns 62914561\<rparr> 50 None
     = Inr (False, ''File too large: 60.0MB > 50MB limit'') \<and>
   validate_audio_file ascii_lower \<lparr>path_text = ''/tmp/a.WAV'', path_suffix = ''.WAV'',
      path_exists = Returns True, stat_st_size = Returns 1024\<rparr> 50 None
     = Inr (True, '''') \<and>
   validate_audio_file ascii_lower \<lparr>path_text = ''/tmp/a.WAV'', path_suffix = ''.WAV'',
      path_exists = Returns False, stat_st_size = Returns 62914561\<rparr> 50 None
     = Inr (False, ''File not found: /tmp/a.WAV'') \<and>
   validate_audio_file ascii_lower \<lparr>path_text = ''/tmp/a.WAV'', path_suffix = ''.WAV'',
      path_exists = Returns True,
      stat_st_size = Raises (OSError ''[Errno 2] No such file or directory'')\<rparr> 50 None
     = Inl (OSError ''[Errno 2] No such file or directory'')"
proof -
  have l: "ascii_lower ''.WAV'' = ''.wav''"
    by (simp add: ascii_lower_def ascii_lower_char_def)
  have a: "ascii_lower ''.WAV'' \<in> set (allowed_list None)"
    unfolding l by (simp add: allowed_list_def AUDIO_FORMATS_def)
  have f: "format_1f (real (62914561::nat) / (1024 * 1024)) = ''60.0''"
    by (simp add: format_1f_def round_half_even_def str_nat.simps digit_char_def Let_def)
  have s: "str_int 50 = ''50''"
    by (simp add: str_int_def str_nat.simps digit_char_def)
  have A: "validate_audio_file ascii_lower \<lparr>path_text = ''/tmp/a.WAV'', path_suffix = ''.WAV'',
      path_exists = Returns True, stat_st_size = Returns 62914561\<rparr> 50 None
     = Inr (False, ''File too large: 60.0MB > 50MB limit'')"
    using validate_audio_file_checks [of "\<lparr>path_text = ''/tmp/a.WAV'', path_suffix = ''.WAV'',
      path_exists = Returns True, stat_st_size = Returns 62914561\<rparr>" ascii_lower 50 None
      62914561 "''''" "OSError ''''"] a f s
    by simp
  have B: "validate_audio_file ascii_lower \<lparr>path_text = ''/tmp/a.WAV'', path_suffix = ''.WAV'',
      path_exists = Returns True, stat_st_size = Returns 1024\<rparr> 50 None
     = Inr (True, '''')"
    using validate_audio_file_checks [of "\<lparr>path_text = ''/tmp/a.WAV'', path_suffix = ''.WAV'',
      path_exists = Returns True, stat_st_size = Returns 1024\<rparr>" ascii_lower 50 None
      1024 "''''" "OSError ''''"] a
    by simp
  have C: "validate_audio_file ascii_lower \<lparr>path_text = ''/tmp/a.WAV'', path_suffix = ''.WAV'',
      path_exists = Returns False, stat_st_size = Returns 62914561\<rparr> 50 None
     = Inr (False, ''File not found: /tmp/a.WAV'')"
    using validate_audio_file_checks [of "\<lparr>path_text = ''/tmp/a.WAV'', path_suffix = ''.WAV'',
      path_exists = Returns False, stat_st_size = Returns 62914561\<rparr>" ascii_lower 50 None
      62914561 "''''" "OSError ''''"]
    by simp
  have D: "validate_audio_file ascii_lower \<lparr>path_text = ''/tmp/a.WAV'', path_suffix = ''.WAV'',
      path_exists = Returns True,
      stat_st_size = Raises (OSError ''[Errno 2] No such file or directory'')\<rparr> 50 None
     = Inl (OSError ''[Errno 2] No such file or directory'')"
    using validate_audio_file_checks [of "\<lparr>path_text = ''/tmp/a.WAV'', path_suffix = ''.WAV'',
      path_exists = Returns True,
      stat_st_size = Raises (OSError ''[Errno 2] No such file or directory'')\<rparr>"
      ascii_lower 50 None 0 "''''" "OSError ''[Errno 2] No such file or directory''"] a
    by simp
  show ?thesis using A B C D by simp
qed

text \<open>
  The claim as stated fails twice. The function can raise: when \<^verbatim>\<open>exists()\<close> raises
  \<^verbatim>\<open>OSError\<close> (as it does on a file name of 300 characters), so does
  \<^verbatim>\<open>validate_audio_file\<close>, and no pair is returned. And the extension is not compared
  without regard to case: \<^verbatim>\<open>/tmp/a.wav\<close> is refused against the allowed list
  \<^verbatim>\<open>['.WAV']\<close>, because only the extension of the file is lowercased.
\<close>

theorem validate_audio_file_raises_counterexample:
  "validate_audio_file ascii_lower \<lparr>path_text = ''/tmp/a.wav'', path_suffix = ''.wav'',
      path_exists = Raises (OSError ''[Errno 36] File name too long''),
      stat_st_size = Returns 1024\<rparr> 50 None
     = Inl (OSError ''[Errno 36] File name too long'') \<and>
   validate_audio_file ascii_lower \<lparr>path_text = ''/tmp/a.wav'', path_suffix = ''.wav'',
      path_exists = Returns True, stat_st_size = Returns 1024\<rparr> 50 (Some [''.WAV''])
     = Inr (False, ''Unsupported format: .wav. Allowed: ['' @ [CHR 0x27] @ ''.WAV''
                     @ [CHR 0x27] @ '']'')"
  by (simp add: validate_audio_file_def allowed_list_def ascii_lower_def ascii_lower_char_def
      repr_list_def repr_str_def)

section \<open>Properties of remove\_silence\<close>













section \<open>Properties of convert\_to\_wav and get\_audio\_duration\<close>

text \<open>
  Claim C9. The transcoder is run with a timeout of 60 seconds. When it completes with a
  non-zero return code, or when the run times out, \<^verbatim>\<open>convert_to_wav\<close> raises an
  \<^verbatim>\<open>AudioProcessingError\<close> and the only call made is the run of the transcoder: there
  is no fallback. When the run raises \<^verbatim>\<open>FileNotFoundError\<close> (the binary is absent),
  \<^verbatim>\<open>_convert_with_scipy\<close> is called: the conversion succeeds when the library path
  completes, and raises the library path's error when it does not.
\<close>

theorem convert_to_wav_failure_and_fallback:
  "(subprocess_run env (ffmpeg_cmd inp (resolve_output tmp stem outp) rate to_mono) 60
      = Returns (CompletedProcess rc err) \<and> rc \<noteq> 0 \<longrightarrow>
    convert_to_wav env tmp inp stem outp rate to_mono =
      ([Call_subprocess_run (ffmpeg_cmd inp (resolve_output tmp stem outp) rate to_mono) 60],
       Inl (AudioProcessingError (''Failed to convert audio: FFmpeg error: '' @ err)))) \<and>
   (subprocess_run env (ffmpeg_cmd inp (resolve_output tmp stem outp) rate to_mono) 60
      = Raises (TimeoutExpired m) \<longrightarrow>
    convert_to_wav env tmp inp stem outp rate to_mono =
      ([Call_subprocess_run (ffmpeg_cmd inp (resolve_output tmp stem outp) rate to_mono) 60],
       Inl (AudioProcessingError (''Failed to convert audio: '' @ m)))) \<and>
   (subprocess_run env (ffmpeg_cmd inp (resolve_output tmp stem outp) rate to_mono) 60
      = Raises (FileNotFoundError m) \<and> scipy_body env = None \<longrightarrow>
    convert_to_wav env tmp inp stem outp rate to_mono =
      ([Call_subprocess_run (ffmpeg_cmd inp (resolve_output tmp stem outp) rate to_mono) 60,
        Call_convert_with_scipy, Call_get_audio_duration],
       Inr (resolve_output tmp stem outp, get_audio_duration (output_probe env)))) \<and>
   (subprocess_run env (ffmpeg_cmd inp (resolve_output tmp stem outp) rate to_mono) 60
      = Raises (FileNotFoundError m) \<and> scipy_body env = Some e \<longrightarrow>
    convert_to_wav env tmp inp stem outp rate to_mono =
      ([Call_subprocess_run (ffmpeg_cmd inp (resolve_output tmp stem outp) rate to_mono) 60,
        Call_convert_with_scipy],
       Inl (AudioProcessingError
              (''Failed to convert audio: Scipy conversion failed: '' @ exn_str e))))"
  by (simp add: convert_to_wav_def convert_inner_def convert_with_scipy_def Let_def)

text \<open>
  The theorem at four environments: a return code of 1, a timeout, and an absent binary
  with the library path completing and failing.
\<close>

theorem convert_to_wav_failure_and_fallback_witness:
  "fst (convert_to_wav
      \<lparr>subprocess_run = (\<lambda>cmd timeout. Returns (CompletedProcess 1 ''bad input'')),
        scipy_body = None,
        output_probe = \<lparr>sf_info_duration = Returns 2, wav_read = Returns (16000, 32000)\<rparr>\<rparr>
      ''/tmp'' ''a.mp3'' ''a'' None 16000 True)
     = [Call_subprocess_run [''ffmpeg'', ''-y'', ''-i'', ''a.mp3'', ''-ar'', ''16000'', ''-ac'', ''1'',
          ''-codec:pcm_s16le'', ''/tmp/a_converted.wav''] 60] \<and>
   snd (convert_to_wav
      \<lparr>subprocess_run = (\<lambda>cmd timeout. Returns (CompletedProcess 1 ''bad input'')),
        scipy_body = None,
        output_probe = \<lparr>sf_info_duration = Returns 2, wav_read = Returns (16000, 32000)\<rparr>\<rparr>
      ''/tmp'' ''a.mp3'' ''a'' None 16000 True)
     = Inl (AudioProcessingError ''Failed to convert audio: FFmpeg error: bad input'') \<and>
   convert_to_wav
      \<lparr>subprocess_run = (\<lambda>cmd timeout. Raises (TimeoutExpired ''timed out after 60 seconds'')),
        scipy_body = None,
        output_probe = \<lparr>sf_info_duration = Returns 2, wav_read = Returns (16000, 32000)\<rparr>\<rparr>
      ''/tmp'' ''a.mp3'' ''a'' (Some ''o.wav'') 16000 True
     = ([Call_subprocess_run [''ffmpeg'', ''-y'', ''-i'', ''a.mp3'', ''-ar'', ''16000'', ''-ac'', ''1'',
          ''-codec:pcm_s16le'', ''o.wav''] 60],
        Inl (AudioProcessingError ''Failed to convert audio: timed out after 60 seconds'')) \<and>
   convert_to_wav
      \<lparr>subprocess_run = (\<lambda>cmd timeout. Raises (FileNotFoundError ''ffmpeg'')),
        scipy_body = None,
        output_probe = \<lparr>sf_info_duration = Returns 2, wav_read = Returns (16000, 32000)\<rparr>\<rparr>
      ''/tmp'' ''a.mp3'' ''a'' (Some ''o.wav'') 16000 True
     = ([Call_subprocess_run [''ffmpeg'', ''-y'', ''-i'', ''a.mp3'', ''-ar'', ''16000'', ''-ac'', ''1'',
          ''-codec:pcm_s16le'', ''o.wav''] 60, Call_convert_with_scipy, Call_get_audio_duration],
        Inr (''o.wav'', 2)) \<and>
   convert_to_wav
      \<lparr>subprocess_run = (\<lambda>cmd timeout. Raises (FileNotFoundError ''ffmpeg'')),
        scipy_body = Some (OtherException ''unknown format''),
        output_probe = \<lparr>sf_info_duration = Returns 2, wav_read = Returns (16000, 32000)\<rparr>\<rparr>
      ''/tmp'' ''a.mp3'' ''a'' (Some ''o.wav'') 16000 True
     = ([Call_subprocess_run [''ffmpeg'', ''-y'', ''-i'', ''a.mp3'', ''-ar'', ''16000'', ''-ac'', ''1'',
          ''-codec:pcm_s16le'', ''o.wav''] 60, Call_convert_with_scipy],
        Inl (AudioProcessingError
               ''Failed to convert audio: Scipy conversion failed: unknown format''))"
  using
    convert_to_wav_failure_and_fallback [of
      "\<lparr>subprocess_run = (\<lambda>cmd timeout. Returns (CompletedProcess 1 ''bad input'')),
        scipy_body = None,
        output_probe = \<lparr>sf_info_duration = Returns 2, wav_read = Returns (16000, 32000)\<rparr>\<rparr>"
      "''a.mp3''" "''/tmp''" "''a''" None 16000 True 1 "''bad input''"]
    convert_to_wav_failure_and_fallback [of
      "\<lparr>subprocess_run = (\<lambda>cmd timeout. Raises (TimeoutExpired ''timed out after 60 seconds'')),
        scipy_body = None,
        output_probe = \<lparr>sf_info_duration = Returns 2, wav_read = Returns (16000, 32000)\<rparr>\<rparr>"
      "''a.mp3''" "''/tmp''" "''a''" "Some ''o.wav''" 16000 True _ _ "''timed out after 60 seconds''"]
    convert_to_wav_failure_and_fallback [of
      "\<lparr>subprocess_run = (\<lambda>cmd timeout. Raises (FileNotFoundError ''ffmpeg'')),
        scipy_body = None,
        output_probe = \<lparr>sf_info_duration = Returns 2, wav_read = Returns (16000, 32000)\<rparr>\<rparr>"
      "''a.mp3''" "''/tmp''" "''a''" "Some ''o.wav''" 16000 True _ _ "''ffmpeg''"]
    convert_to_wav_failure_and_fallback [of
      "\<lparr>subprocess_run = (\<lambda>cmd timeout. Raises (FileNotFoundError ''ffmpeg'')),
        scipy_body = Some (OtherException ''unknown format''),
        output_probe = \<lparr>sf_info_duration = Returns 2, wav_read = Returns (16000, 32000)\<rparr>\<rparr>"
      "''a.mp3''" "''/tmp''" "''a''" "Some ''o.wav''" 16000 True _ _ "''ffmpeg''" "OtherException ''unknown format''"]
  by (simp add: ffmpeg_cmd_def resolve_output_def str_int_def str_nat.simps digit_char_def
      get_audio_duration_def get_audio_duration_try_def)

lemma get_audio_duration_try_failure:
  "get_audio_duration_try env = Inl e \<Longrightarrow> get_audio_duration env = 0"
  by (simp add: get_audio_duration_def)

lemma get_audio_duration_unreadable:
  "(sf_info_duration env = Raises e \<and> (\<forall>m. e \<noteq> ImportError m)
      \<longrightarrow> get_audio_duration env = 0) \<and>
   (sf_info_duration env = Raises (ImportError m) \<and> wav_read env = Raises e
      \<longrightarrow> get_audio_duration env = 0) \<and>
   (sf_info_duration env = Raises (ImportError m) \<and> wav_read env = Returns (0, n)
      \<longrightarrow> get_audio_duration env = 0)"
  by (cases e) (simp_all add: get_audio_duration_def get_audio_duration_try_def)

text \<open>
  Claim C10. \<^verbatim>\<open>get_audio_duration\<close> returns a number for every environment: the
  duration when one of the two readers gives it, and 0.0 whenever the body of its
  \<^verbatim>\<open>try\<close> raises, which is the case when \<^verbatim>\<open>soundfile\<close> cannot read the file, or
  cannot be imported while \<^verbatim>\<open>wavfile.read\<close> cannot read it. So whenever the conversion
  itself succeeds and the duration cannot be measured, \<^verbatim>\<open>convert_to_wav\<close> returns the
  output path with a duration of 0.0, and no error.
\<close>

theorem get_audio_duration_swallows_failure:
  "(get_audio_duration_try env = Inl e \<longrightarrow> get_audio_duration env = 0) \<and>
   (get_audio_duration_try env = Inr d \<longrightarrow> get_audio_duration env = d) \<and>
   (sf_info_duration env = Raises e \<and> (\<forall>m. e \<noteq> ImportError m)
      \<longrightarrow> get_audio_duration env = 0) \<and>
   (sf_info_duration env = Raises (ImportError m) \<and> wav_read env = Raises e
      \<longrightarrow> get_audio_duration env = 0) \<and>
   (convert_inner cenv (ffmpeg_cmd inp (resolve_output tmp stem outp) rate to_mono)
        = (calls, Inr ())
      \<and> get_audio_duration_try (output_probe cenv) = Inl e
      \<longrightarrow> convert_to_wav cenv tmp inp stem outp rate to_mono
            = (calls @ [Call_get_audio_duration], Inr (resolve_output tmp stem outp, 0)))"
  using get_audio_duration_unreadable[of env e m]
  by (simp add: get_audio_duration_def convert_to_wav_def Let_def)

text \<open>
  The theorem where the transcoder returns 0 and \<^verbatim>\<open>soundfile\<close> cannot decode the file
  it wrote: the conversion is reported as a success, with a duration of 0.0.
\<close>

theorem get_audio_duration_swallows_failure_witness:
  "get_audio_duration
      \<lparr>sf_info_duration = Raises (OtherException ''Format not recognised''),
        wav_read = Returns (16000, 32000)\<rparr> = 0 \<and>
   convert_to_wav
      \<lparr>subprocess_run = (\<lambda>cmd timeout. Returns (CompletedProcess 0 '''')),
        scipy_body = None,
        output_probe = \<lparr>sf_info_duration = Raises (OtherException ''Format not recognised''),
                         wav_read = Returns (16000, 32000)\<rparr>\<rparr>
      ''/tmp'' ''a.mp3'' ''a'' (Some ''o.wav'') 16000 True
     = ([Call_subprocess_run [''ffmpeg'', ''-y'', ''-i'', ''a.mp3'', ''-ar'', ''16000'', ''-ac'', ''1'',
          ''-codec:pcm_s16le'', ''o.wav''] 60, Call_get_audio_duration],
        Inr (''o.wav'', 0))"
  using
    get_audio_duration_swallows_failure [of
      "\<lparr>sf_info_duration = Raises (OtherException ''Format not recognised''),
        wav_read = Returns (16000, 32000)\<rparr>"
      "OtherException ''Format not recognised''" 0 "''''"
      "\<lparr>subprocess_run = (\<lambda>cmd timeout. Returns (CompletedProcess 0 '''')),
        scipy_body = None,
        output_probe = \<lparr>sf_info_duration = Raises (OtherException ''Format not recognised''),
                         wav_read = Returns (16000, 32000)\<rparr>\<rparr>"
      "''a.mp3''" "''/tmp''" "''a''" "Some ''o.wav''" 16000 True
      "[Call_subprocess_run [''ffmpeg'', ''-y'', ''-i'', ''a.mp3'', ''-ar'', ''16000'', ''-ac'', ''1'',
          ''-codec:pcm_s16le'', ''o.wav''] 60]"]
  by (simp add: ffmpeg_cmd_def resolve_output_def str_int_def str_nat.simps digit_char_def
      get_audio_duration_try_def convert_inner_def)

section \<open>Properties of the model lifecycle\<close>

lemma whisper_load_model_failure:
  "whisper_load_model env force s = (s', Inl e) \<Longrightarrow>
     (\<exists>m. e = RuntimeError m) \<and> w_model_loaded s' = w_model_loaded s"
  by (auto simp: whisper_load_model_def whisper_load_body_def Let_def
      split: if_splits outcome.splits)

lemma whisper_load_model_raises:
  "w_load_outcome env = Raises x \<Longrightarrow> \<not> w_model_loaded s \<or> force \<Longrightarrow>
     snd (whisper_load_model env force s)
       = Inl (RuntimeError (''Whisper model loading failed: '' @ exn_str x))"
  by (auto simp: whisper_load_model_def whisper_load_body_def Let_def)

lemma whisper_load_model_success:
  "w_load_outcome env = Returns h \<Longrightarrow> \<not> w_model_loaded s \<Longrightarrow>
     w_model_loaded (fst (whisper_load_model env force s)) \<and>
     snd (whisper_load_model env force s) = Inr ()"
  by (simp add: whisper_load_model_def whisper_load_body_def Let_def)

lemma sentiment_load_try_failure:
  "sentiment_load_try env s = (s', Inl e) \<Longrightarrow> s_model_loaded s' = s_model_loaded s"
  by (auto simp: sentiment_load_try_def Let_def split: if_splits outcome.splits)

lemma sentiment_load_model_failure:
  "sentiment_load_model env force s = (s', Inl e) \<Longrightarrow>
     (\<exists>m. e = RuntimeError m) \<and> s_model_loaded s' = s_model_loaded s"
  by (auto simp: sentiment_load_model_def sentiment_load_body_def
      split: if_splits prod.splits sum.splits dest: sentiment_load_try_failure)

lemma sentiment_load_model_raises:
  "model_outcome env = Raises x \<Longrightarrow> tokenizer_outcome env = Returns tok \<Longrightarrow>
   \<not> s_model_loaded s \<or> force \<Longrightarrow>
     snd (sentiment_load_model env force s)
       = Inl (RuntimeError (''Sentiment model loading failed: '' @ exn_str x))"
  by (auto simp: sentiment_load_model_def sentiment_load_body_def sentiment_load_try_def Let_def)

lemma sentiment_load_model_success:
  "tokenizer_outcome env = Returns tok \<Longrightarrow> model_outcome env = Returns mdl \<Longrightarrow>
   to_device_outcome env = Returns u \<Longrightarrow> id2label_outcome env = Returns ls \<Longrightarrow>
   pipeline_outcome env = Returns p \<Longrightarrow> \<not> s_model_loaded s \<Longrightarrow>
     s_model_loaded (fst (sentiment_load_model env force s)) \<and>
     snd (sentiment_load_model env force s) = Inr ()"
  by (simp add: sentiment_load_model_def sentiment_load_body_def sentiment_load_try_def Let_def)

text \<open>
  Claim C6, as the code has it, for both services. When the model instantiation raises
  during a load that is attempted, \<^verbatim>\<open>load_model\<close> raises a \<^verbatim>\<open>RuntimeError\<close>. Whenever
  \<^verbatim>\<open>load_model\<close> raises, the error is a \<^verbatim>\<open>RuntimeError\<close> and the loaded flag is what
  it was before the call: nothing sets it on the failing path and nothing resets it. So
  on a service that was not loaded the flag stays false, \<^verbatim>\<open>get_model_info\<close> reports
  \<^verbatim>\<open>not_loaded\<close> afterwards, and a later attempt whose instantiation succeeds loads the
  model.
\<close>

theorem load_model_failure_keeps_flag:
  "(w_load_outcome env = Raises x \<and> (\<not> w_model_loaded s \<or> force) \<longrightarrow>
      snd (whisper_load_model env force s)
        = Inl (RuntimeError (''Whisper model loading failed: '' @ exn_str x))) \<and>
   (whisper_load_model env force s = (s', Inl e) \<longrightarrow>
      (\<exists>m. e = RuntimeError m) \<and> w_model_loaded s' = w_model_loaded s \<and>
      (\<not> w_model_loaded s \<longrightarrow>
         whisper_get_model_info s' = Not_loaded \<and>
         (w_load_outcome env2 = Returns h \<longrightarrow>
            w_model_loaded (fst (whisper_load_model env2 force2 s')) \<and>
            snd (whisper_load_model env2 force2 s') = Inr ()))) \<and>
   (model_outcome senv = Raises y \<and> tokenizer_outcome senv = Returns tok
      \<and> (\<not> s_model_loaded t \<or> sforce) \<longrightarrow>
      snd (sentiment_load_model senv sforce t)
        = Inl (RuntimeError (''Sentiment model loading failed: '' @ exn_str y))) \<and>
   (sentiment_load_model senv sforce t = (t', Inl e2) \<longrightarrow>
      (\<exists>m. e2 = RuntimeError m) \<and> s_model_loaded t' = s_model_loaded t \<and>
      (\<not> s_model_loaded t \<longrightarrow>
         sentiment_get_model_info t' = Not_loaded \<and>
         (tokenizer_outcome senv2 = Returns tok2 \<and> model_outcome senv2 = Returns mdl2
            \<and> to_device_outcome senv2 = Returns u \<and> id2label_outcome senv2 = Returns ls
            \<and> pipeline_outcome senv2 = Returns p \<longrightarrow>
            s_model_loaded (fst (sentiment_load_model senv2 sforce2 t')) \<and>
            snd (sentiment_load_model senv2 sforce2 t') = Inr ())))"
proof (intro conjI impI)
  assume "w_load_outcome env = Raises x \<and> (\<not> w_model_loaded s \<or> force)"
  thus "snd (whisper_load_model env force s)
          = Inl (RuntimeError (''Whisper model loading failed: '' @ exn_str x))"
    using whisper_load_model_raises by blast
next
  assume a: "whisper_load_model env force s = (s', Inl e)"
  show "\<exists>m. e = RuntimeError m" using whisper_load_model_failure[OF a] by simp
  show f: "w_model_loaded s' = w_model_loaded s" using whisper_load_model_failure[OF a] by simp
  assume n: "\<not> w_model_loaded s"
  show "whisper_get_model_info s' = Not_loaded"
    using f n by (simp add: whisper_get_model_info_def)
  assume r: "w_load_outcome env2 = Returns h"
  have n': "\<not> w_model_loaded s'" using f n by simp
  show "w_model_loaded (fst (whisper_load_model env2 force2 s'))"
    using whisper_load_model_success[OF r n'] by simp
  show "snd (whisper_load_model env2 force2 s') = Inr ()"
    using whisper_load_model_success[OF r n'] by simp
next
  assume "model_outcome senv = Raises y \<and> tokenizer_outcome senv = Returns tok
      \<and> (\<not> s_model_loaded t \<or> sforce)"
  thus "snd (sentiment_load_model senv sforce t)
          = Inl (RuntimeError (''Sentiment model loading failed: '' @ exn_str y))"
    using sentiment_load_model_raises by blast
next
  assume a: "sentiment_load_model senv sforce t = (t', Inl e2)"
  show "\<exists>m. e2 = RuntimeError m" using sentiment_load_model_failure[OF a] by simp
  show f: "s_model_loaded t' = s_model_loaded t" using sentiment_load_model_failure[OF a] by simp
  assume n: "\<not> s_model_loaded t"
  show "sentiment_get_model_info t' = Not_loaded"
    using f n by (simp add: sentiment_get_model_info_def)
  assume r: "tokenizer_outcome senv2 = Returns tok2 \<and> model_outcome senv2 = Returns mdl2
            \<and> to_device_outcome senv2 = Returns u \<and> id2label_outcome senv2 = Returns ls
            \<and> pipeline_outcome senv2 = Returns p"
  have n': "\<not> s_model_loaded t'" using f n by simp
  have ok: "s_model_loaded (fst (sentiment_load_model senv2 sforce2 t')) \<and>
            snd (sentiment_load_model senv2 sforce2 t') = Inr ()"
    using r n' by (intro sentiment_load_model_success[where tok=tok2 and mdl=mdl2 and u=u
          and ls=ls and p=p]) simp_all
  show "s_model_loaded (fst (sentiment_load_model senv2 sforce2 t'))" using ok by simp
  show "snd (sentiment_load_model senv2 sforce2 t') = Inr ()" using ok by simp
qed

text \<open>
  The theorem on fresh services with the device \<^verbatim>\<open>auto\<close>: a first attempt whose
  instantiation raises, then a second one that succeeds.
\<close>

theorem load_model_failure_keeps_flag_witness:
  "whisper_load_model
      \<lparr>w_cuda_available = False, w_load_outcome = Raises (OtherException ''download failed''),
        w_elapsed = 1\<rparr> False (whisper_init ''base'' ''auto'')
     = (\<lparr>w_model = None, w_model_size = ''base'', w_device = ''cpu'', w_load_time = None,
          w_model_loaded = False\<rparr>,
        Inl (RuntimeError ''Whisper model loading failed: download failed'')) \<and>
   whisper_get_model_info
      \<lparr>w_model = None, w_model_size = ''base'', w_device = ''cpu'', w_load_time = None,
        w_model_loaded = False\<rparr> = Not_loaded \<and>
   w_model_loaded (fst (whisper_load_model
      \<lparr>w_cuda_available = False, w_load_outcome = Returns 7, w_elapsed = 3\<rparr> False
      \<lparr>w_model = None, w_model_size = ''base'', w_device = ''cpu'', w_load_time = None,
        w_model_loaded = False\<rparr>)) \<and>
   sentiment_load_model
      \<lparr>s_cuda_available = False, tokenizer_outcome = Returns 1,
        model_outcome = Raises (OtherException ''download failed''),
        to_device_outcome = Returns (), id2label_outcome = Returns [''joy''],
        pipeline_outcome = Returns 3, s_elapsed = 1\<rparr> False (sentiment_init ''m'' ''auto'')
     = (\<lparr>s_model_name = ''m'', s_device = ''cpu'', s_tokenizer = Some 1, s_model = None,
          s_classifier = None, s_load_time = None, s_model_loaded = False, s_labels = []\<rparr>,
        Inl (RuntimeError ''Sentiment model loading failed: download failed'')) \<and>
   s_model_loaded (fst (sentiment_load_model
      \<lparr>s_cuda_available = False, tokenizer_outcome = Returns 1, model_outcome = Returns 2,
        to_device_outcome = Returns (), id2label_outcome = Returns [''joy''],
        pipeline_outcome = Returns 3, s_elapsed = 1\<rparr> False
      \<lparr>s_model_name = ''m'', s_device = ''cpu'', s_tokenizer = Some 1, s_model = None,
        s_classifier = None, s_load_time = None, s_model_loaded = False, s_labels = []\<rparr>))"
proof -
  let ?wenv = "\<lparr>w_cuda_available = False,
      w_load_outcome = Raises (OtherException ''download failed''), w_elapsed = 1\<rparr>"
  let ?wenv2 = "\<lparr>w_cuda_available = False, w_load_outcome = Returns 7, w_elapsed = 3\<rparr>"
  let ?s' = "\<lparr>w_model = None, w_model_size = ''base'', w_device = ''cpu'', w_load_time = None,
      w_model_loaded = False\<rparr>"
  let ?senv = "\<lparr>s_cuda_available = False, tokenizer_outcome = Returns 1,
      model_outcome = Raises (OtherException ''download failed''),
      to_device_outcome = Returns (), id2label_outcome = Returns [''joy''],
      pipeline_outcome = Returns 3, s_elapsed = 1\<rparr>"
  let ?senv2 = "\<lparr>s_cuda_available = False, tokenizer_outcome = Returns 1,
      model_outcome = Returns 2, to_device_outcome = Returns (),
      id2label_outcome = Returns [''joy''], pipeline_outcome = Returns 3, s_elapsed = 1\<rparr>"
  let ?t' = "\<lparr>s_model_name = ''m'', s_device = ''cpu'', s_tokenizer = Some 1, s_model = None,
      s_classifier = None, s_load_time = None, s_model_loaded = False, s_labels = []\<rparr>"
  have w: "whisper_load_model ?wenv False (whisper_init ''base'' ''auto'')
             = (?s', Inl (RuntimeError ''Whisper model loading failed: download failed''))"
    by (simp add: whisper_load_model_def whisper_load_body_def whisper_init_def)
  have s: "sentiment_load_model ?senv False (sentiment_init ''m'' ''auto'')
             = (?t', Inl (RuntimeError ''Sentiment model loading failed: download failed''))"
    by (simp add: sentiment_load_model_def sentiment_load_body_def sentiment_load_try_def
        sentiment_init_def)
  from load_model_failure_keeps_flag [of ?wenv "OtherException ''download failed''"
      "whisper_init ''base'' ''auto''" False ?s'
      "RuntimeError ''Whisper model loading failed: download failed''" ?wenv2 7 False
      ?senv "OtherException ''download failed''" 1 "sentiment_init ''m'' ''auto''" False ?t'
      "RuntimeError ''Sentiment model loading failed: download failed''" ?senv2 1 2 "()"
      "[''joy'']" 3 False]
  show ?thesis
    using w s by (simp add: whisper_init_def sentiment_init_def)
qed

text \<open>
  The claim as stated fails for a forced reload: on a loaded service,
  \<^verbatim>\<open>load_model(force_reload=True)\<close> whose instantiation raises surfaces the error and
  leaves the service loaded, with the model it had; in the sentiment service the new
  tokenizer stays beside the old model and pipeline.
\<close>

theorem failed_forced_reload_counterexample:
  "snd (whisper_load_model
      \<lparr>w_cuda_available = False, w_load_outcome = Raises (OtherException ''out of memory''),
        w_elapsed = 1\<rparr> True
      \<lparr>w_model = Some 7, w_model_size = ''base'', w_device = ''cpu'', w_load_time = Some 3,
        w_model_loaded = True\<rparr>)
     = Inl (RuntimeError ''Whisper model loading failed: out of memory'') \<and>
   whisper_get_model_info (fst (whisper_load_model
      \<lparr>w_cuda_available = False, w_load_outcome = Raises (OtherException ''out of memory''),
        w_elapsed = 1\<rparr> True
      \<lparr>w_model = Some 7, w_model_size = ''base'', w_device = ''cpu'', w_load_time = Some 3,
        w_model_loaded = True\<rparr>))
     = Info ''base'' ''cpu'' True (Some 3) \<and>
   sentiment_load_model
      \<lparr>s_cuda_available = False, tokenizer_outcome = Returns 11,
        model_outcome = Raises (OtherException ''out of memory''),
        to_device_outcome = Returns (), id2label_outcome = Returns [''joy''],
        pipeline_outcome = Returns 13, s_elapsed = 1\<rparr> True
      \<lparr>s_model_name = ''m'', s_device = ''cpu'', s_tokenizer = Some 1, s_model = Some 2,
        s_classifier = Some 3, s_load_time = Some 5, s_model_loaded = True,
        s_labels = [''joy'']\<rparr>
     = (\<lparr>s_model_name = ''m'', s_device = ''cpu'', s_tokenizer = Some 11, s_model = Some 2,
          s_classifier = Some 3, s_load_time = Some 5, s_model_loaded = True,
          s_labels = [''joy'']\<rparr>,
        Inl (RuntimeError ''Sentiment model loading failed: out of memory''))"
  by (simp add: whisper_load_model_def whisper_load_body_def whisper_get_model_info_def
      sentiment_load_model_def sentiment_load_body_def sentiment_load_try_def)

section \<open>Properties of the emotion classification\<close>

lemma UNIV_labels: "(UNIV :: SentimentLabel set) = set all_labels"
proof -
  have "x \<in> set all_labels" for x by (cases x) (simp_all add: all_labels_def)
  thus ?thesis by auto
qed

lemma card_labels: "card (UNIV :: SentimentLabel set) = 7"
  by (simp add: UNIV_labels all_labels_def)

lemma all_dropWhile: "(\<forall>x\<in>set (dropWhile P xs). P x) \<longleftrightarrow> (\<forall>x\<in>set xs. P x)"
proof
  assume a: "\<forall>x\<in>set (dropWhile P xs). P x"
  have "dropWhile P xs = []"
  proof (rule ccontr)
    assume n: "dropWhile P xs \<noteq> []"
    hence "\<not> P (hd (dropWhile P xs))" by (rule hd_dropWhile)
    moreover have "hd (dropWhile P xs) \<in> set (dropWhile P xs)" using n by simp
    ultimately show False using a by blast
  qed
  thus "\<forall>x\<in>set xs. P x" by (simp add: dropWhile_eq_Nil_conv)
next
  assume "\<forall>x\<in>set xs. P x"
  thus "\<forall>x\<in>set (dropWhile P xs). P x" by (meson set_dropWhileD)
qed

lemma is_blank_iff: "is_blank text \<longleftrightarrow> list_all is_space text"
proof -
  have "py_strip text = [] \<longleftrightarrow> (\<forall>x\<in>set text. is_space x)"
    by (simp add: py_strip_def dropWhile_eq_Nil_conv all_dropWhile)
  thus ?thesis by (auto simp: is_blank_def list_all_iff)
qed

lemma fill_step:
  "foldl (\<lambda>acc l. if acc l = None then acc(l \<mapsto> 0) else acc) m ls k
     = (if k \<in> set ls then (case m k of Some v \<Rightarrow> Some v | None \<Rightarrow> Some (0::real)) else m k)"
  by (induction ls arbitrary: m) (auto split: option.splits)

lemma fill_missing_apply:
  "fill_missing m k = (case m k of Some v \<Rightarrow> Some v | None \<Rightarrow> Some 0)"
  unfolding fill_missing_def fill_step using UNIV_labels by auto

lemma zero_step:
  "foldl (\<lambda>acc l. acc(l \<mapsto> (0::real))) m ls k = (if k \<in> set ls then Some 0 else m k)"
  by (induction ls arbitrary: m) auto

lemma zero_distribution_apply: "zero_distribution k = Some 0"
  unfolding zero_distribution_def zero_step using UNIV_labels by auto

lemma dom_fill_missing: "dom (fill_missing m) = UNIV"
  by (auto simp: fill_missing_apply dom_def split: option.splits)

lemma collect_scores_absent:
  "k \<notin> (\<lambda>r. map_label (label_of r)) ` set rs \<Longrightarrow> collect_scores rs m k = m k"
  by (induction rs arbitrary: m) auto

lemma collect_scores_range:
  "collect_scores rs m k = Some v \<Longrightarrow> m k = Some v \<or> (\<exists>r\<in>set rs. v = score_of r)"
  by (induction rs arbitrary: m) (fastforce split: if_splits)+

lemma collect_scores_last:
  "\<forall>r'\<in>set rs2. map_label (label_of r') \<noteq> map_label (label_of r) \<Longrightarrow>
     collect_scores (rs1 @ r # rs2) m (map_label (label_of r)) = Some (score_of r)"
proof (induction rs1 arbitrary: m)
  case Nil
  hence "map_label (label_of r) \<notin> (\<lambda>r. map_label (label_of r)) ` set rs2" by auto
  from collect_scores_absent[OF this] show ?case by simp
next
  case (Cons a rs1)
  then show ?case by simp
qed

lemma map_label_unknown: "map_of EMOTION_MAPPING raw = None \<Longrightarrow> map_label raw = NEUTRAL"
  by (simp add: map_label_def)

lemma ensure_loaded_when_loaded: "s_model_loaded s \<Longrightarrow> ensure_loaded env s = (s, Inr ())"
  by (simp add: ensure_loaded_def)

lemma analyze_with_all_scores_nested:
  assumes "\<not> is_blank text" "ensure_loaded env s = (s1, Inr ())" "s_classifier s1 = Some p"
    "classifier_call env text = Returns (Nested (rs # rest))"
  shows "analyze_with_all_scores env s text
           = (s1, Inr (fill_missing (collect_scores rs Map.empty)))"
  using assms
  by (simp add: analyze_with_all_scores_def all_scores_try_def call_classifier_def)

lemma distribution_bounds:
  assumes "list_all (\<lambda>r. 0 \<le> score_of r \<and> score_of r \<le> 1) rs"
    "fill_missing (collect_scores rs Map.empty) l = Some v"
  shows "0 \<le> v \<and> v \<le> 1"
proof (cases "collect_scores rs Map.empty l")
  case None
  with assms(2) show ?thesis by (simp add: fill_missing_apply)
next
  case (Some w)
  with assms(2) have "w = v" by (simp add: fill_missing_apply)
  with Some collect_scores_range[of rs Map.empty l v]
  obtain r where "r \<in> set rs" "v = score_of r" by auto
  with assms(1) show ?thesis by (auto simp: list_all_iff)
qed

text \<open>
  Claim C3, as the code has it. For a text that is not blank, on a service whose model is
  loaded or loads, and whose classifier returns its entries for the text (a list of
  entries per input), \<^verbatim>\<open>analyze_with_all_scores\<close> returns a distribution with
  exactly 7 keys, one per member of \<^verbatim>\<open>SentimentLabel\<close> (the six mapped emotions and
  \<open>neutral\<close>). Its values are in \<open>[0, 1]\<close> when the classifier's scores are. A label
  that no entry maps to has the value 0.0. A raw label outside the mapping is stored
  under \<open>neutral\<close>, and the value of a key is the score of the last entry mapped to it.
\<close>

theorem analyze_with_all_scores_distribution:
  "\<not> is_blank text \<and> ensure_loaded env s = (s1, Inr ()) \<and> s_classifier s1 = Some p
     \<and> classifier_call env text = Returns (Nested (rs # rest)) \<longrightarrow>
   analyze_with_all_scores env s text
     = (s1, Inr (fill_missing (collect_scores rs Map.empty))) \<and>
   dom (fill_missing (collect_scores rs Map.empty)) = UNIV \<and>
   card (dom (fill_missing (collect_scores rs Map.empty))) = 7 \<and>
   (list_all (\<lambda>r. 0 \<le> score_of r \<and> score_of r \<le> 1) rs
      \<and> fill_missing (collect_scores rs Map.empty) l = Some v \<longrightarrow> 0 \<le> v \<and> v \<le> 1) \<and>
   (k \<notin> (\<lambda>r. map_label (label_of r)) ` set rs
      \<longrightarrow> fill_missing (collect_scores rs Map.empty) k = Some 0) \<and>
   (map_of EMOTION_MAPPING raw = None \<longrightarrow> map_label raw = NEUTRAL) \<and>
   (rs = rs1 @ r # rs2
      \<and> (\<forall>r'\<in>set rs2. map_label (label_of r') \<noteq> map_label (label_of r))
      \<longrightarrow> fill_missing (collect_scores rs Map.empty) (map_label (label_of r))
            = Some (score_of r))"
proof (intro impI conjI)
  assume a: "\<not> is_blank text \<and> ensure_loaded env s = (s1, Inr ()) \<and> s_classifier s1 = Some p
     \<and> classifier_call env text = Returns (Nested (rs # rest))"
  thus "analyze_with_all_scores env s text
          = (s1, Inr (fill_missing (collect_scores rs Map.empty)))"
    using analyze_with_all_scores_nested by blast
  show "dom (fill_missing (collect_scores rs Map.empty)) = UNIV"
    by (rule dom_fill_missing)
  show "card (dom (fill_missing (collect_scores rs Map.empty))) = 7"
    by (simp add: dom_fill_missing card_labels)
  show "0 \<le> v" "v \<le> 1"
    if "list_all (\<lambda>r. 0 \<le> score_of r \<and> score_of r \<le> 1) rs
      \<and> fill_missing (collect_scores rs Map.empty) l = Some v"
    using that distribution_bounds by blast+
  show "fill_missing (collect_scores rs Map.empty) k = Some 0"
    if "k \<notin> (\<lambda>r. map_label (label_of r)) ` set rs"
    using collect_scores_absent[OF that, of Map.empty] by (simp add: fill_missing_apply)
  show "map_label raw = NEUTRAL" if "map_of EMOTION_MAPPING raw = None"
    using that by (rule map_label_unknown)
  show "fill_missing (collect_scores rs Map.empty) (map_label (label_of r)) = Some (score_of r)"
    if "rs = rs1 @ r # rs2
      \<and> (\<forall>r'\<in>set rs2. map_label (label_of r') \<noteq> map_label (label_of r))"
    using that collect_scores_last[of rs2 r rs1 Map.empty] by (simp add: fill_missing_apply)
qed

text \<open>
  The theorem on a fresh service whose first call loads the model, for the text
  \<open>hi\<close> and a classifier that answers joy 0.9, disgust 0.1, sadness 0.9: the raw label
  \<open>disgust\<close> is outside the mapping and fills \<open>neutral\<close>, and \<open>love\<close>, which the
  classifier omits, is present with 0.
\<close>

theorem analyze_with_all_scores_distribution_witness:
  "analyze_with_all_scores
      \<lparr>lazy_load = \<lparr>s_cuda_available = False, tokenizer_outcome = Returns 1,
          model_outcome = Returns 2, to_device_outcome = Returns (),
          id2label_outcome = Returns [''joy''], pipeline_outcome = Returns 3, s_elapsed = 1\<rparr>,
        classifier_call = (\<lambda>t. Returns (Nested
          [[Raw_result (Some ''joy'') (Some (9 / 10)),
            Raw_result (Some ''disgust'') (Some (1 / 10)),
            Raw_result (Some ''sadness'') (Some (9 / 10))]]))\<rparr>
      (sentiment_init ''m'' ''cpu'') [104, 105]
     = (\<lparr>s_model_name = ''m'', s_device = ''cpu'', s_tokenizer = Some 1, s_model = Some 2,
          s_classifier = Some 3, s_load_time = Some 1, s_model_loaded = True,
          s_labels = [''joy'']\<rparr>,
        Inr (fill_missing (collect_scores
          [Raw_result (Some ''joy'') (Some (9 / 10)),
           Raw_result (Some ''disgust'') (Some (1 / 10)),
           Raw_result (Some ''sadness'') (Some (9 / 10))] Map.empty))) \<and>
   card (dom (fill_missing (collect_scores
          [Raw_result (Some ''joy'') (Some (9 / 10)),
           Raw_result (Some ''disgust'') (Some (1 / 10)),
           Raw_result (Some ''sadness'') (Some (9 / 10))] Map.empty))) = 7 \<and>
   fill_missing (collect_scores
          [Raw_result (Some ''joy'') (Some (9 / 10)),
           Raw_result (Some ''disgust'') (Some (1 / 10)),
           Raw_result (Some ''sadness'') (Some (9 / 10))] Map.empty) LOVE = Some 0 \<and>
   fill_missing (collect_scores
          [Raw_result (Some ''joy'') (Some (9 / 10)),
           Raw_result (Some ''disgust'') (Some (1 / 10)),
           Raw_result (Some ''sadness'') (Some (9 / 10))] Map.empty) NEUTRAL = Some (1 / 10)"
proof -
  let ?env = "\<lparr>lazy_load = \<lparr>s_cuda_available = False, tokenizer_outcome = Returns 1,
          model_outcome = Returns 2, to_device_outcome = Returns (),
          id2label_outcome = Returns [''joy''], pipeline_outcome = Returns 3, s_elapsed = 1\<rparr>,
        classifier_call = (\<lambda>t. Returns (Nested
          [[Raw_result (Some ''joy'') (Some (9 / 10)),
            Raw_result (Some ''disgust'') (Some (1 / 10)),
            Raw_result (Some ''sadness'') (Some (9 / 10))]]))\<rparr>"
  let ?s1 = "\<lparr>s_model_name = ''m'', s_device = ''cpu'', s_tokenizer = Some 1, s_model = Some 2,
          s_classifier = Some 3, s_load_time = Some 1, s_model_loaded = True,
          s_labels = [''joy'']\<rparr>"
  let ?d = "Raw_result (Some ''disgust'') (Some (1 / 10))"
  have nb: "\<not> is_blank [104, 105]"
    by (simp add: is_blank_def py_strip_def is_space_def)
  have el: "ensure_loaded ?env (sentiment_init ''m'' ''cpu'') = (?s1, Inr ())"
    by (simp add: ensure_loaded_def sentiment_load_model_def sentiment_load_body_def
        sentiment_load_try_def sentiment_init_def)
  have love: "LOVE \<notin> (\<lambda>r. map_label (label_of r)) `
      set [Raw_result (Some ''joy'') (Some (9 / 10)), ?d,
           Raw_result (Some ''sadness'') (Some (9 / 10))]"
    by (simp add: map_label_def label_of_def EMOTION_MAPPING_def)
  have last: "\<forall>r'\<in>set [Raw_result (Some ''sadness'') (Some (9 / 10))].
      map_label (label_of r') \<noteq> map_label (label_of ?d)"
    by (simp add: map_label_def label_of_def EMOTION_MAPPING_def)
  have neutral: "map_label (label_of ?d) = NEUTRAL" "score_of ?d = 1 / 10"
    by (simp_all add: map_label_def label_of_def score_of_def EMOTION_MAPPING_def)
  let ?rs = "[Raw_result (Some ''joy'') (Some (9 / 10)), ?d,
        Raw_result (Some ''sadness'') (Some (9 / 10))]"
  let ?m = "fill_missing (collect_scores ?rs Map.empty)"
  have hyp: "\<not> is_blank [104, 105]
      \<and> ensure_loaded ?env (sentiment_init ''m'' ''cpu'') = (?s1, Inr ())
      \<and> s_classifier ?s1 = Some 3
      \<and> classifier_call ?env [104, 105] = Returns (Nested (?rs # []))"
    using nb el by simp
  have split: "?rs = [Raw_result (Some ''joy'') (Some (9 / 10))] @ ?d
      # [Raw_result (Some ''sadness'') (Some (9 / 10))]"
    by simp
  note T = analyze_with_all_scores_distribution [of "[104, 105]" ?env
      "sentiment_init ''m'' ''cpu''" ?s1 3 ?rs "[]" NEUTRAL "1 / 10" LOVE "''disgust''"
      "[Raw_result (Some ''joy'') (Some (9 / 10))]" ?d
      "[Raw_result (Some ''sadness'') (Some (9 / 10))]"]
  have A: "analyze_with_all_scores ?env (sentiment_init ''m'' ''cpu'') [104, 105]
             = (?s1, Inr ?m)"
    using T hyp by blast
  have B: "card (dom ?m) = 7" using T hyp by blast
  have C: "?m LOVE = Some 0" using T hyp love by blast
  have "?m (map_label (label_of ?d)) = Some (score_of ?d)" using T hyp split last by blast
  hence D: "?m NEUTRAL = Some (1 / 10)" unfolding neutral .
  show ?thesis using A B C D by blast
qed

text \<open>
  The claim as stated fails on the number of keys: on a loaded service, for the text
  \<open>hi\<close> and a classifier that answers joy 0.9, the distribution has 7 keys, not 6.
\<close>

theorem analyze_with_all_scores_six_keys_counterexample:
  "\<not> card (dom (projr (snd (analyze_with_all_scores
      \<lparr>lazy_load = \<lparr>s_cuda_available = False, tokenizer_outcome = Returns 1,
          model_outcome = Returns 2, to_device_outcome = Returns (),
          id2label_outcome = Returns [''joy''], pipeline_outcome = Returns 3, s_elapsed = 1\<rparr>,
        classifier_call = (\<lambda>t. Returns (Nested
          [[Raw_result (Some ''joy'') (Some (9 / 10))]]))\<rparr>
      \<lparr>s_model_name = ''m'', s_device = ''cpu'', s_tokenizer = Some 1, s_model = Some 2,
        s_classifier = Some 3, s_load_time = Some 1, s_model_loaded = True,
        s_labels = [''joy'']\<rparr> [104, 105])))) = 6"
proof -
  have nb: "\<not> is_blank [104, 105]"
    by (simp add: is_blank_def py_strip_def is_space_def)
  show ?thesis
    using nb
    by (simp add: analyze_with_all_scores_def ensure_loaded_def all_scores_try_def
        call_classifier_def dom_fill_missing card_labels)
qed

text \<open>
  Claim C5, as the code has it. Both entry points first load the model when it is not
  loaded, and only then look at the text. For a blank text (empty, or whitespace only),
  once the model is loaded or has loaded, \<^verbatim>\<open>analyze\<close> raises the input error
  \<^verbatim>\<open>ValueError("Input text cannot be empty")\<close> and returns no result, while
  \<^verbatim>\<open>analyze_with_all_scores\<close> returns the distribution that maps every label to 0.0.
  When the load fails, both raise the load failure instead.
\<close>

theorem blank_text_entry_points:
  "(is_blank text \<longleftrightarrow> list_all is_space text) \<and>
   zero_distribution l = Some 0 \<and>
   (s_model_loaded s \<longrightarrow> ensure_loaded env s = (s, Inr ())) \<and>
   (is_blank text \<and> ensure_loaded env s = (s1, Inr ()) \<longrightarrow>
      analyze env s text = (s1, Inl (ValueError ''Input text cannot be empty'')) \<and>
      analyze_with_all_scores env s text = (s1, Inr zero_distribution)) \<and>
   (is_blank text \<and> ensure_loaded env s = (s1, Inl e) \<longrightarrow>
      analyze env s text = (s1, Inl e) \<and>
      analyze_with_all_scores env s text = (s1, Inl e))"
  by (simp add: is_blank_iff zero_distribution_apply ensure_loaded_when_loaded analyze_def
      analyze_with_all_scores_def)

text \<open>
  The theorem for the text of a space and a tab: on a loaded service, and on a fresh one
  whose load fails.
\<close>

theorem blank_text_entry_points_witness:
  "analyze
      \<lparr>lazy_load = \<lparr>s_cuda_available = False, tokenizer_outcome = Returns 1,
          model_outcome = Returns 2, to_device_outcome = Returns (),
          id2label_outcome = Returns [''joy''], pipeline_outcome = Returns 3, s_elapsed = 1\<rparr>,
        classifier_call = (\<lambda>t. Returns (Nested []))\<rparr>
      \<lparr>s_model_name = ''m'', s_device = ''cpu'', s_tokenizer = Some 1, s_model = Some 2,
        s_classifier = Some 3, s_load_time = Some 1, s_model_loaded = True,
        s_labels = [''joy'']\<rparr> [32, 9]
     = (\<lparr>s_model_name = ''m'', s_device = ''cpu'', s_tokenizer = Some 1, s_model = Some 2,
          s_classifier = Some 3, s_load_time = Some 1, s_model_loaded = True,
          s_labels = [''joy'']\<rparr>,
        Inl (ValueError ''Input text cannot be empty'')) \<and>
   analyze_with_all_scores
      \<lparr>lazy_load = \<lparr>s_cuda_available = False, tokenizer_outcome = Returns 1,
          model_outcome = Returns 2, to_device_outcome = Returns (),
          id2label_outcome = Returns [''joy''], pipeline_outcome = Returns 3, s_elapsed = 1\<rparr>,
        classifier_call = (\<lambda>t. Returns (Nested []))\<rparr>
      \<lparr>s_model_name = ''m'', s_device = ''cpu'', s_tokenizer = Some 1, s_model = Some 2,
        s_classifier = Some 3, s_load_time = Some 1, s_model_loaded = True,
        s_labels = [''joy'']\<rparr> [32, 9]
     = (\<lparr>s_model_name = ''m'', s_device = ''cpu'', s_tokenizer = Some 1, s_model = Some 2,
          s_classifier = Some 3, s_load_time = Some 1, s_model_loaded = True,
          s_labels = [''joy'']\<rparr>,
        Inr zero_distribution) \<and>
   zero_distribution NEUTRAL = Some 0 \<and>
   analyze_with_all_scores
      \<lparr>lazy_load = \<lparr>s_cuda_available = False,
          tokenizer_outcome = Raises (OtherException ''no network''),
          model_outcome = Returns 2, to_device_outcome = Returns (),
          id2label_outcome = Returns [''joy''], pipeline_outcome = Returns 3, s_elapsed = 1\<rparr>,
        classifier_call = (\<lambda>t. Returns (Nested []))\<rparr>
      (sentiment_init ''m'' ''cpu'') [32, 9]
     = (sentiment_init ''m'' ''cpu'',
        Inl (RuntimeError ''Sentiment model loading failed: no network''))"
proof -
  let ?env = "\<lparr>lazy_load = \<lparr>s_cuda_available = False, tokenizer_outcome = Returns 1,
          model_outcome = Returns 2, to_device_outcome = Returns (),
          id2label_outcome = Returns [''joy''], pipeline_outcome = Returns 3, s_elapsed = 1\<rparr>,
        classifier_call = (\<lambda>t. Returns (Nested []))\<rparr>"
  let ?s = "\<lparr>s_model_name = ''m'', s_device = ''cpu'', s_tokenizer = Some 1, s_model = Some 2,
        s_classifier = Some 3, s_load_time = Some 1, s_model_loaded = True,
        s_labels = [''joy'']\<rparr>"
  let ?fenv = "\<lparr>lazy_load = \<lparr>s_cuda_available = False,
          tokenizer_outcome = Raises (OtherException ''no network''),
          model_outcome = Returns 2, to_device_outcome = Returns (),
          id2label_outcome = Returns [''joy''], pipeline_outcome = Returns 3, s_elapsed = 1\<rparr>,
        classifier_call = (\<lambda>t. Returns (Nested []))\<rparr>"
  let ?e = "RuntimeError ''Sentiment model loading failed: no network''"
  have blank: "list_all is_space [32, 9]" by (simp add: is_space_def)
  have loaded: "s_model_loaded ?s" by simp
  have fails: "ensure_loaded ?fenv (sentiment_init ''m'' ''cpu'')
                 = (sentiment_init ''m'' ''cpu'', Inl ?e)"
    by (simp add: ensure_loaded_def sentiment_load_model_def sentiment_load_body_def
        sentiment_load_try_def sentiment_init_def)
  note T1 = blank_text_entry_points [of "[32, 9]" NEUTRAL ?s ?env ?s ?e]
  note T2 = blank_text_entry_points [of "[32, 9]" NEUTRAL "sentiment_init ''m'' ''cpu''" ?fenv
      "sentiment_init ''m'' ''cpu''" ?e]
  have b: "is_blank [32, 9]" using T1 blank by blast
  have el: "ensure_loaded ?env ?s = (?s, Inr ())" using T1 loaded by blast
  have A: "analyze ?env ?s [32, 9] = (?s, Inl (ValueError ''Input text cannot be empty''))"
    using T1 b el by blast
  have B: "analyze_with_all_scores ?env ?s [32, 9] = (?s, Inr zero_distribution)"
    using T1 b el by blast
  have C: "zero_distribution NEUTRAL = Some 0" using T1 by blast
  have D: "analyze_with_all_scores ?fenv (sentiment_init ''m'' ''cpu'') [32, 9]
             = (sentiment_init ''m'' ''cpu'', Inl ?e)"
    using T2 b fails by blast
  show ?thesis using A B C D by blast
qed

text \<open>
  The claim as stated fails where the lazy load fails: on a fresh service whose tokenizer
  cannot be loaded, \<^verbatim>\<open>analyze_with_all_scores("")\<close> raises instead of returning the
  all-zero distribution, and the error \<^verbatim>\<open>analyze("")\<close> raises is the load failure,
  not the input error.
\<close>

theorem blank_text_load_failure_counterexample:
  "snd (analyze_with_all_scores
      \<lparr>lazy_load = \<lparr>s_cuda_available = False,
          tokenizer_outcome = Raises (OtherException ''no network''),
          model_outcome = Returns 2, to_device_outcome = Returns (),
          id2label_outcome = Returns [''joy''], pipeline_outcome = Returns 3, s_elapsed = 1\<rparr>,
        classifier_call = (\<lambda>t. Returns (Nested []))\<rparr>
      (sentiment_init ''m'' ''cpu'') [])
     = Inl (RuntimeError ''Sentiment model loading failed: no network'') \<and>
   snd (analyze
      \<lparr>lazy_load = \<lparr>s_cuda_available = False,
          tokenizer_outcome = Raises (OtherException ''no network''),
          model_outcome = Returns 2, to_device_outcome = Returns (),
          id2label_outcome = Returns [''joy''], pipeline_outcome = Returns 3, s_elapsed = 1\<rparr>,
        classifier_call = (\<lambda>t. Returns (Nested []))\<rparr>
      (sentiment_init ''m'' ''cpu'') [])
     = Inl (RuntimeError ''Sentiment model loading failed: no network'')"
  by (simp add: analyze_with_all_scores_def analyze_def ensure_loaded_def
      sentiment_load_model_def sentiment_load_body_def sentiment_load_try_def
      sentiment_init_def)

section \<open>Properties of the first load under two threads\<close>

text \<open>
  A thread that runs its load test and its load sequence without interruption does what
  \<^verbatim>\<open>load_model()\<close> does.
\<close>

lemma thread_alone_is_load_model:
  assumes "t < length (pcs st)" "pcs st ! t = At_load_test"
  shows "service (run_schedule env [t, t] st) = fst (whisper_load_model env False (service st))"
  using assms
  by (simp add: run_schedule_def thread_step_def whisper_load_model_def)

text \<open>One call after the other: the second thread finds the flag set and does not load.\<close>

lemma sequential_first_calls_load_once:
  "load_log (run_schedule
      \<lparr>w_cuda_available = False, w_load_outcome = Returns 7, w_elapsed = 3\<rparr>
      [0, 0, 0, 1, 1, 1] (two_first_calls ''base'' ''auto'')) = [0]"
  by (simp add: run_schedule_def thread_step_def two_first_calls_def whisper_init_def
      whisper_load_body_def)

text \<open>
  Claim C2 under an interleaving. Both threads pass the test of \<^verbatim>\<open>transcribe\<close> and
  the test of \<^verbatim>\<open>load_model\<close> while the flag is still false, and then each runs the
  load sequence: the model is instantiated twice and the load time is recorded twice.
  Nothing in \<^verbatim>\<open>load_model\<close> excludes this schedule.
\<close>

theorem concurrent_first_calls_load_twice:
  "load_log (run_schedule
      \<lparr>w_cuda_available = False, w_load_outcome = Returns 7, w_elapsed = 3\<rparr>
      [0, 1, 0, 1, 0, 1] (two_first_calls ''base'' ''auto'')) = [0, 1] \<and>
   w_model_loaded (service (run_schedule
      \<lparr>w_cuda_available = False, w_load_outcome = Returns 7, w_elapsed = 3\<rparr>
      [0, 1, 0, 1, 0, 1] (two_first_calls ''base'' ''auto'')))"
  by (simp add: run_schedule_def thread_step_def two_first_calls_def whisper_init_def
      whisper_load_body_def)

end
